theory Spec2Isabelle
  imports Complex_Main "HOL-Library.List_Lexorder" "HOL-Library.Char_ord"
begin

section \<open>Numbers of the runtime\<close>

text \<open>
  The engine of \<^verbatim>\<open>useWalletTimeline\<close> computes with JavaScript numbers. They are
  modelled as exact rationals extended by the three special values of IEEE arithmetic, so
  that a division by zero and an invalid date are values of the model and not hidden by a
  total HOL function. Rounding error and overflow of double arithmetic are not modelled,
  and the two signed zeros are one value.
\<close>

datatype jsnum = Fin rat | PInf | NInf | NaN

fun js_neg :: "jsnum \<Rightarrow> jsnum" where
  "js_neg (Fin a) = Fin (- a)"
| "js_neg PInf = NInf"
| "js_neg NInf = PInf"
| "js_neg NaN = NaN"

fun js_add :: "jsnum \<Rightarrow> jsnum \<Rightarrow> jsnum" where
  "js_add NaN y = NaN"
| "js_add x NaN = NaN"
| "js_add (Fin a) (Fin b) = Fin (a + b)"
| "js_add PInf NInf = NaN"
| "js_add NInf PInf = NaN"
| "js_add PInf y = PInf"
| "js_add x PInf = PInf"
| "js_add NInf y = NInf"
| "js_add x NInf = NInf"

definition js_sub :: "jsnum \<Rightarrow> jsnum \<Rightarrow> jsnum" where
  "js_sub x y = js_add x (js_neg y)"

text \<open>The sign of a number that is not NaN: \<open>-1\<close>, \<open>0\<close> or \<open>1\<close>.\<close>

fun js_sign :: "jsnum \<Rightarrow> int" where
  "js_sign (Fin a) = (if a < 0 then - 1 else if a = 0 then 0 else 1)"
| "js_sign PInf = 1"
| "js_sign NInf = - 1"
| "js_sign NaN = 0"

definition inf_of_sign :: "int \<Rightarrow> jsnum" where
  "inf_of_sign s = (if s = 0 then NaN else if 0 < s then PInf else NInf)"

fun js_mul :: "jsnum \<Rightarrow> jsnum \<Rightarrow> jsnum" where
  "js_mul NaN y = NaN"
| "js_mul x NaN = NaN"
| "js_mul (Fin a) (Fin b) = Fin (a * b)"
| "js_mul x y = inf_of_sign (js_sign x * js_sign y)"

fun js_div :: "jsnum \<Rightarrow> jsnum \<Rightarrow> jsnum" where
  "js_div NaN y = NaN"
| "js_div x NaN = NaN"
| "js_div (Fin a) (Fin b) = (if b = 0 then inf_of_sign (js_sign (Fin a)) else Fin (a / b))"
| "js_div (Fin a) y = Fin 0"
| "js_div x (Fin b) = (if b < 0 then js_neg x else x)"
| "js_div x y = NaN"

fun js_floor :: "jsnum \<Rightarrow> jsnum" where
  "js_floor (Fin a) = Fin (of_int (floor a))"
| "js_floor x = x"

fun js_ceil :: "jsnum \<Rightarrow> jsnum" where
  "js_ceil (Fin a) = Fin (of_int (ceiling a))"
| "js_ceil x = x"

text \<open>\<^verbatim>\<open>Math.round\<close> rounds to the nearest integer, a half towards \<open>+\<infinity>\<close>.\<close>

fun js_round :: "jsnum \<Rightarrow> jsnum" where
  "js_round (Fin a) = Fin (of_int (floor (a + 1 / 2)))"
| "js_round x = x"

fun js_abs :: "jsnum \<Rightarrow> jsnum" where
  "js_abs (Fin a) = Fin (abs a)"
| "js_abs NInf = PInf"
| "js_abs x = x"

text \<open>Comparisons are false as soon as one side is NaN.\<close>

fun js_lt :: "jsnum \<Rightarrow> jsnum \<Rightarrow> bool" where
  "js_lt NaN y = False"
| "js_lt x NaN = False"
| "js_lt (Fin a) (Fin b) = (a < b)"
| "js_lt x PInf = (x \<noteq> PInf)"
| "js_lt NInf y = (y \<noteq> NInf)"
| "js_lt x y = False"

fun js_eq :: "jsnum \<Rightarrow> jsnum \<Rightarrow> bool" where
  "js_eq NaN y = False"
| "js_eq x NaN = False"
| "js_eq x y = (x = y)"

definition js_le :: "jsnum \<Rightarrow> jsnum \<Rightarrow> bool" where
  "js_le x y = (js_lt x y \<or> js_eq x y)"

definition js_gt :: "jsnum \<Rightarrow> jsnum \<Rightarrow> bool" where
  "js_gt x y = js_lt y x"

definition js_ge :: "jsnum \<Rightarrow> jsnum \<Rightarrow> bool" where
  "js_ge x y = js_le y x"

text \<open>\<^verbatim>\<open>Math.max\<close> and \<^verbatim>\<open>Math.min\<close> of two numbers: NaN as soon as one is NaN.\<close>

fun js_max :: "jsnum \<Rightarrow> jsnum \<Rightarrow> jsnum" where
  "js_max NaN y = NaN"
| "js_max x NaN = NaN"
| "js_max x y = (if js_lt x y then y else x)"

fun js_min :: "jsnum \<Rightarrow> jsnum \<Rightarrow> jsnum" where
  "js_min NaN y = NaN"
| "js_min x NaN = NaN"
| "js_min x y = (if js_lt y x then y else x)"

text \<open>\<^verbatim>\<open>x || 0\<close> on a number: \<open>0\<close> and NaN are falsy.\<close>

definition js_truthy :: "jsnum \<Rightarrow> bool" where
  "js_truthy x = (x \<noteq> NaN \<and> x \<noteq> Fin 0)"

definition js_or0 :: "jsnum \<Rightarrow> jsnum" where
  "js_or0 x = (if js_truthy x then x else Fin 0)"

text \<open>\<^verbatim>\<open>Math.round(x * 1000000) / 1000000\<close>, the rounding of every stored balance.\<close>

definition round6 :: "jsnum \<Rightarrow> jsnum" where
  "round6 x = js_div (js_round (js_mul x (Fin 1000000))) (Fin 1000000)"

section \<open>Vesting model\<close>

text \<open>
  A \<^verbatim>\<open>Date\<close> is modelled by its time value \<^verbatim>\<open>getTime()\<close>: milliseconds since the
  epoch, NaN for an Invalid Date.
\<close>

record VestingSchedule =
  startTime :: jsnum
  lockedTuna :: jsnum
  cliffHours :: jsnum
  unlockPeriodHours :: jsnum
  unlockRateTuna :: jsnum

definition calculateLockedAmount :: "VestingSchedule \<Rightarrow> jsnum \<Rightarrow> jsnum" where
  "calculateLockedAmount schedule currentTime =
     (let elapsedMs = js_sub currentTime (startTime schedule);
          elapsedHours = js_div elapsedMs (Fin (1000 * 60 * 60))
      in if js_lt elapsedHours (cliffHours schedule) then lockedTuna schedule
         else
           let hoursSinceCliff = js_sub elapsedHours (cliffHours schedule);
               unlockPeriods = js_floor (js_div hoursSinceCliff (unlockPeriodHours schedule));
               totalUnlocked = js_mul unlockPeriods (unlockRateTuna schedule)
           in js_max (Fin 0) (js_sub (lockedTuna schedule) totalUnlocked))"


section \<open>Runtime library\<close>

text \<open>
  The engine calls three functions of the JavaScript runtime on strings and dates. They
  are parameters of the model, so that every theorem holds for every implementation:
  \<^item> \<open>Date_parse s\<close> is the time value of \<^verbatim>\<open>new Date(s)\<close>, NaN when \<open>s\<close> does not parse
    (the constructor never throws on a string);
  \<^item> \<open>toISOString t\<close> is the text of the valid date with time value \<open>t\<close>;
  \<^item> \<open>localeCompare a b\<close> is negative, zero or positive.
  Strings are compared by \<open><\<close> and \<open>\<le>\<close> in the lexicographic order of their characters,
  as the relational operators of the language do.
\<close>

record runtime =
  Date_parse :: "string \<Rightarrow> jsnum"
  toISOString :: "rat \<Rightarrow> string"
  localeCompare :: "string \<Rightarrow> string \<Rightarrow> int"

text \<open>
  \<^verbatim>\<open>new Date(x)\<close> on a number: the time value is \<open>x\<close> truncated to an integer, and the
  date is invalid when \<open>x\<close> is not finite or beyond 8.64e15 milliseconds.
\<close>

definition Date_of_number :: "jsnum \<Rightarrow> jsnum" where
  "Date_of_number x =
     (case x of
        Fin a \<Rightarrow>
          if abs a \<le> 8640000000000000
          then Fin (of_int (if 0 \<le> a then floor a else ceiling a))
          else NaN
      | _ \<Rightarrow> NaN)"

section \<open>Data model\<close>

text \<open>
  An event of the archive is a JSON array. Its declared type is the tuple
  \<^verbatim>\<open>[signature, timestamp, slot, type_id, address, d_stake, d_pending, d_withdrawn,
  d_compounded, fee_payer, reward_sol, ...rest]\<close>; the array may be shorter than the
  tuple, which the code checks. A JSON number is finite.
\<close>

datatype jsval = JNum rat | JStr string | JNull

type_synonym StakerEvent = "jsval list"

text \<open>
  Reading a string field and reading \<^verbatim>\<open>event[i] || 0\<close> on a number field. An absent
  element and \<^verbatim>\<open>null\<close> are falsy. A value of another type than the declared one is
  outside the input type; it is read as the empty string, respectively as \<open>0\<close>.
\<close>

definition str_at :: "StakerEvent \<Rightarrow> nat \<Rightarrow> string" where
  "str_at event i =
     (if i < length event then (case event ! i of JStr s \<Rightarrow> s | _ \<Rightarrow> []) else [])"

definition num_or0 :: "StakerEvent \<Rightarrow> nat \<Rightarrow> jsnum" where
  "num_or0 event i =
     (if i < length event
      then (case event ! i of JNum x \<Rightarrow> js_or0 (Fin x) | _ \<Rightarrow> Fin 0)
      else Fin 0)"

record TimelinePoint =
  date :: string
  staked :: jsnum
  unstaked :: jsnum
  locked :: jsnum
  realized_rewards :: jsnum

record Operation =
  op_date :: string
  op_type :: string
  type_label :: string
  amount :: jsnum
  signature :: string
  solscan_url :: string

record WalletSummary =
  total_operations :: nat
  current_staked :: jsnum
  current_unstaked :: jsnum
  current_locked :: jsnum
  summary_realized_rewards :: jsnum
  first_stake_date :: string
  last_activity_date :: string
  days_active :: jsnum

text \<open>
  The address record: \<open>None\<close> is \<^verbatim>\<open>undefined\<close>. The cache: \<open>meta_end\<close> is
  \<^verbatim>\<open>cache.meta.end\<close>, \<open>None\<close> when the metadata has no end date.
\<close>

record AddressData =
  first_event :: "rat option"
  last_event :: "rat option"
  current :: "rat list option"

record StakerCache =
  addresses :: "string \<rightharpoonup> AddressData"
  events :: "StakerEvent list"
  meta_end :: "string option"

text \<open>
  A negative result carries one of four messages; the wallet count that the first
  message prints is left out.
\<close>

datatype lookup_error =
  WalletNotInCache | NoEventData | NoEventsForWallet | FailedToBuildTimeline

record WalletTimelineFound =
  wallet :: string
  date_range :: "string \<times> string"
  timeline :: "TimelinePoint list"
  operations :: "Operation list"
  summary :: WalletSummary

datatype WalletTimelineData =
  NotFound string lookup_error | Found WalletTimelineFound

definition EVENT_TYPES :: "rat \<rightharpoonup> string \<times> string" where
  "EVENT_TYPES =
     [0 \<mapsto> (''initialize'', ''Initialize Position''),
      1 \<mapsto> (''stake'', ''Stake''),
      2 \<mapsto> (''unstake'', ''Unstake''),
      3 \<mapsto> (''withdraw'', ''Withdraw''),
      4 \<mapsto> (''compound'', ''Compound''),
      5 \<mapsto> (''claim'', ''Claim Rewards''),
      6 \<mapsto> (''set_vesting'', ''Set Vesting Strategy'')]"

definition event_type :: "jsval \<Rightarrow> string \<times> string" where
  "event_type op =
     (case (case op of JNum k \<Rightarrow> EVENT_TYPES k | _ \<Rightarrow> None) of
        Some names \<Rightarrow> names
      | None \<Rightarrow> (''unknown'', ''Unknown''))"

section \<open>Balance accumulator\<close>

text \<open>The variables of the loop of \<^verbatim>\<open>buildBalanceTimeline\<close>.\<close>

record balance_state =
  bs_timeline :: "TimelinePoint list"
  bs_operations :: "Operation list"
  bs_staked :: jsnum
  bs_unstaked :: jsnum
  bs_realized_rewards :: jsnum
  bs_vestingSchedules :: "VestingSchedule list"

definition initial_state :: balance_state where
  "initial_state =
     \<lparr>bs_timeline = [], bs_operations = [], bs_staked = Fin 0, bs_unstaked = Fin 0,
      bs_realized_rewards = Fin 0, bs_vestingSchedules = []\<rparr>"

text \<open>\<^verbatim>\<open>Array.prototype.findIndex\<close>: the first index that satisfies \<open>P\<close>, or \<open>-1\<close>.\<close>

fun findIndex :: "('a \<Rightarrow> bool) \<Rightarrow> 'a list \<Rightarrow> int" where
  "findIndex P [] = - 1"
| "findIndex P (x # xs) =
     (if P x then 0 else (let r = findIndex P xs in if r < 0 then - 1 else r + 1))"

definition upsertSchedule ::
  "VestingSchedule list \<Rightarrow> VestingSchedule \<Rightarrow> jsnum \<Rightarrow> VestingSchedule list" where
  "upsertSchedule vestingSchedules newSchedule amt =
     (let existingIndex = findIndex (\<lambda>s. js_eq (lockedTuna s) amt) vestingSchedules
      in if 0 \<le> existingIndex
         then vestingSchedules[nat existingIndex := newSchedule]
         else vestingSchedules @ [newSchedule])"

text \<open>
  The chain of branches on \<^verbatim>\<open>op_type\<close>: the operation amount and the updated running
  totals and schedules.
\<close>

definition applyEvent :: "runtime \<Rightarrow> balance_state \<Rightarrow> StakerEvent \<Rightarrow> jsnum \<times> balance_state" where
  "applyEvent rt st event =
     (let timestamp = str_at event 1;
          op = event ! 3;
          d_stake = num_or0 event 5;
          d_pending = num_or0 event 6;
          reward_sol = num_or0 event 10
      in
        if op = JNum 0 then
          (js_abs d_stake,
           st\<lparr>bs_staked := js_add (bs_staked st) d_stake,
              bs_unstaked := js_add (bs_unstaked st) d_pending\<rparr>)
        else if op = JNum 1 then
          (js_abs d_stake,
           st\<lparr>bs_staked := js_add (bs_staked st) d_stake,
              bs_unstaked := js_add (bs_unstaked st) d_pending\<rparr>)
        else if op = JNum 2 then
          (js_abs d_stake,
           st\<lparr>bs_staked := js_add (bs_staked st) d_stake,
              bs_unstaked := js_add (bs_unstaked st) d_pending\<rparr>)
        else if op = JNum 3 then
          (js_abs d_pending,
           st\<lparr>bs_staked := js_add (bs_staked st) d_stake,
              bs_unstaked := js_add (bs_unstaked st) d_pending\<rparr>)
        else if op = JNum 4 then
          (reward_sol,
           st\<lparr>bs_realized_rewards := js_add (bs_realized_rewards st) reward_sol,
              bs_staked := js_add (bs_staked st) d_stake,
              bs_unstaked := js_add (bs_unstaked st) d_pending\<rparr>)
        else if op = JNum 5 then
          (reward_sol,
           st\<lparr>bs_realized_rewards := js_add (bs_realized_rewards st) reward_sol,
              bs_staked := js_add (bs_staked st) d_stake,
              bs_unstaked := js_add (bs_unstaked st) d_pending\<rparr>)
        else if op = JNum 6 then
          (let amt = js_abs d_stake;
               cliffHours = num_or0 event 12;
               unlockPeriodHours = num_or0 event 13;
               unlockRateTuna = num_or0 event 14
           in
             if js_gt amt (Fin 0) \<and> js_gt unlockPeriodHours (Fin 0) \<and> js_gt unlockRateTuna (Fin 0)
             then
               (let newSchedule =
                      \<lparr>startTime = Date_parse rt timestamp, lockedTuna = amt,
                       cliffHours = cliffHours, unlockPeriodHours = unlockPeriodHours,
                       unlockRateTuna = unlockRateTuna\<rparr>
                in (amt,
                    st\<lparr>bs_vestingSchedules :=
                         upsertSchedule (bs_vestingSchedules st) newSchedule amt\<rparr>))
             else (amt, st))
        else
          (Fin 0,
           st\<lparr>bs_staked := js_add (bs_staked st) d_stake,
              bs_unstaked := js_add (bs_unstaked st) d_pending\<rparr>))"

text \<open>The sum of the locked amounts of all schedules at one instant.\<close>

definition sumLocked :: "VestingSchedule list \<Rightarrow> jsnum \<Rightarrow> jsnum" where
  "sumLocked vestingSchedules t =
     foldl (\<lambda>rawLocked schedule. js_add rawLocked (calculateLockedAmount schedule t))
       (Fin 0) vestingSchedules"

text \<open>One iteration of the loop over the events.\<close>

definition processEvent :: "runtime \<Rightarrow> balance_state \<Rightarrow> StakerEvent \<Rightarrow> balance_state" where
  "processEvent rt st event =
     (if length event < 11 then st
      else
        let sig = str_at event 0;
            timestamp = str_at event 1;
            names = event_type (event ! 3);
            amt = fst (applyEvent rt st event);
            st1 = snd (applyEvent rt st event);
            eventTime = Date_parse rt timestamp;
            rawLocked = sumLocked (bs_vestingSchedules st1) eventTime;
            lockedNow = js_min rawLocked (bs_staked st1)
        in st1\<lparr>bs_timeline := bs_timeline st1 @
                 [\<lparr>date = timestamp, staked = round6 (bs_staked st1),
                   unstaked = round6 (bs_unstaked st1), locked = round6 lockedNow,
                   realized_rewards = round6 (bs_realized_rewards st1)\<rparr>],
               bs_operations := bs_operations st1 @
                 [\<lparr>op_date = timestamp, op_type = fst names, type_label = snd names,
                   amount = round6 amt, signature = sig,
                   solscan_url = ''https://solscan.io/tx/'' @ sig\<rparr>]\<rparr>)"

definition buildBalanceTimeline ::
  "runtime \<Rightarrow> StakerEvent list \<Rightarrow> TimelinePoint list \<times> Operation list \<times> VestingSchedule list" where
  "buildBalanceTimeline rt evs =
     (let st = foldl (processEvent rt) initial_state evs
      in (bs_timeline st, bs_operations st, bs_vestingSchedules st))"

section \<open>Timeline extender\<close>

text \<open>
  The loop \<^verbatim>\<open>for (let i = 0; i <= totalPeriods; i++)\<close> over the unlock boundaries of one
  schedule, for a finite bound. A boundary is kept when its date is not later than the
  end of the cache; the comparison is false for an Invalid Date, so the dates kept are
  valid and are held as time values.
\<close>

function unlockLoop :: "jsnum \<Rightarrow> jsnum \<Rightarrow> jsnum \<Rightarrow> jsnum \<Rightarrow> rat \<Rightarrow> nat \<Rightarrow> rat list" where
  "unlockLoop startMs cliffMs periodMs cacheEndTime totalPeriods i =
     (if of_nat i \<le> totalPeriods then
        (let unlockTime =
               (if i = 0 then Date_of_number (js_add startMs cliffMs)
                else Date_of_number
                       (js_add (js_add startMs cliffMs) (js_mul (Fin (of_nat i)) periodMs)))
         in (case unlockTime of
               Fin u \<Rightarrow> if js_le unlockTime cacheEndTime then [u] else []
             | _ \<Rightarrow> [])
            @ unlockLoop startMs cliffMs periodMs cacheEndTime totalPeriods (Suc i))
      else [])"
  by pat_completeness auto
termination
proof (relation "measure (\<lambda>(startMs, cliffMs, periodMs, cacheEndTime, totalPeriods, i).
                    nat (floor totalPeriods + 1) - i)")
  show "wf (measure (\<lambda>(startMs, cliffMs, periodMs, cacheEndTime, totalPeriods, i).
                    nat (floor totalPeriods + 1) - i))"
    by simp
next
  fix startMs cliffMs periodMs cacheEndTime :: jsnum and totalPeriods :: rat and i :: nat
  assume "of_nat i \<le> totalPeriods"
  then have "int i \<le> floor totalPeriods"
    by (simp add: le_floor_iff)
  then show "((startMs, cliffMs, periodMs, cacheEndTime, totalPeriods, Suc i),
              (startMs, cliffMs, periodMs, cacheEndTime, totalPeriods, i))
             \<in> measure (\<lambda>(startMs, cliffMs, periodMs, cacheEndTime, totalPeriods, i).
                    nat (floor totalPeriods + 1) - i)"
    by simp
qed

text \<open>
  The unlock boundaries of one schedule. With \<^verbatim>\<open>totalPeriods = Infinity\<close> the loop of the
  source never ends: the result is \<open>None\<close>. With NaN or \<^verbatim>\<open>-Infinity\<close> its condition is
  false at once.
\<close>

definition scheduleUnlockTimes :: "VestingSchedule \<Rightarrow> jsnum \<Rightarrow> rat list option" where
  "scheduleUnlockTimes schedule cacheEndTime =
     (let startMs = startTime schedule;
          cliffMs = js_mul (js_mul (js_mul (cliffHours schedule) (Fin 60)) (Fin 60)) (Fin 1000);
          periodMs =
            js_mul (js_mul (js_mul (unlockPeriodHours schedule) (Fin 60)) (Fin 60)) (Fin 1000);
          totalPeriods = js_ceil (js_div (lockedTuna schedule) (unlockRateTuna schedule))
      in case totalPeriods of
           Fin n \<Rightarrow> Some (unlockLoop startMs cliffMs periodMs cacheEndTime n 0)
         | PInf \<Rightarrow> None
         | _ \<Rightarrow> Some [])"

fun collectUnlockTimes :: "VestingSchedule list \<Rightarrow> jsnum \<Rightarrow> rat list option" where
  "collectUnlockTimes [] cacheEndTime = Some []"
| "collectUnlockTimes (schedule # rest) cacheEndTime =
     (case scheduleUnlockTimes schedule cacheEndTime of
        None \<Rightarrow> None
      | Some us \<Rightarrow>
          (case collectUnlockTimes rest cacheEndTime of
             None \<Rightarrow> None
           | Some vs \<Rightarrow> Some (us @ vs)))"

text \<open>
  The search for the previous point. It starts from \<^verbatim>\<open>timeline[0]\<close> and runs over the
  whole array; the callers have checked \<^verbatim>\<open>timeline.length > 0\<close>.
\<close>

definition findPrevPoint :: "TimelinePoint list \<Rightarrow> string \<Rightarrow> TimelinePoint" where
  "findPrevPoint pts unlockDateStr =
     foldl (\<lambda>prevPoint point.
              if date point \<le> unlockDateStr \<and> date prevPoint < date point
              then point else prevPoint)
       (hd pts) pts"

text \<open>The loop that adds the unlock points that do not coincide with existing events.\<close>

fun addUnlockPoints ::
  "runtime \<Rightarrow> VestingSchedule list \<Rightarrow> string list \<Rightarrow> TimelinePoint list \<Rightarrow> rat list
     \<Rightarrow> TimelinePoint list" where
  "addUnlockPoints rt vestingSchedules existingDates pts [] = pts"
| "addUnlockPoints rt vestingSchedules existingDates pts (unlockTime # rest) =
     (let unlockDateStr = toISOString rt unlockTime
      in if unlockDateStr \<in> set existingDates
         then addUnlockPoints rt vestingSchedules existingDates pts rest
         else
           let prevPoint = findPrevPoint pts unlockDateStr;
               lockedAtUnlock = sumLocked vestingSchedules (Fin unlockTime);
               cappedLocked = js_min lockedAtUnlock (staked prevPoint)
           in addUnlockPoints rt vestingSchedules existingDates
                (pts @ [\<lparr>date = unlockDateStr, staked = staked prevPoint,
                         unstaked = unstaked prevPoint, locked = round6 cappedLocked,
                         realized_rewards = realized_rewards prevPoint\<rparr>])
                rest)"

text \<open>\<^verbatim>\<open>timeline.reduce((latest, p) => p.date > latest.date ? p : latest)\<close>.\<close>

definition latestPoint :: "TimelinePoint list \<Rightarrow> TimelinePoint" where
  "latestPoint pts =
     foldl (\<lambda>latest p. if date latest < date p then p else latest) (hd pts) (tl pts)"

text \<open>
  \<^verbatim>\<open>timeline.sort((a, b) => a.date.localeCompare(b.date))\<close>. The sort of the language is
  stable; it is modelled as a stable insertion sort, which returns a permutation for
  every comparator.
\<close>

fun insertPoint :: "runtime \<Rightarrow> TimelinePoint \<Rightarrow> TimelinePoint list \<Rightarrow> TimelinePoint list" where
  "insertPoint rt p [] = [p]"
| "insertPoint rt p (q # qs) =
     (if localeCompare rt (date p) (date q) \<le> 0 then p # q # qs
      else q # insertPoint rt p qs)"

definition sortTimeline :: "runtime \<Rightarrow> TimelinePoint list \<Rightarrow> TimelinePoint list" where
  "sortTimeline rt pts = foldr (insertPoint rt) pts []"

text \<open>
  The extension of the timeline to the end date of the cache. A string is truthy when it
  is present and not empty. The result is \<open>None\<close> when the source does not return.
\<close>

definition extendTimeline ::
  "runtime \<Rightarrow> string option \<Rightarrow> TimelinePoint list \<Rightarrow> VestingSchedule list
     \<Rightarrow> TimelinePoint list option" where
  "extendTimeline rt cacheEndDate pts vestingSchedules =
     (case cacheEndDate of
        None \<Rightarrow> Some pts
      | Some endDate \<Rightarrow>
          if endDate \<noteq> [] \<and> pts \<noteq> [] \<and> vestingSchedules \<noteq> [] then
            (let cacheEndTimestamp = endDate @ ''T23:59:59Z'';
                 cacheEndTime = Date_parse rt cacheEndTimestamp
             in case collectUnlockTimes vestingSchedules cacheEndTime of
                  None \<Rightarrow> None
                | Some unlockTimes \<Rightarrow>
                    (let existingDates = map date pts;
                         pts1 = addUnlockPoints rt vestingSchedules existingDates pts unlockTimes;
                         lastPoint = latestPoint pts1;
                         pts2 =
                           (if date lastPoint < cacheEndTimestamp then
                              pts1 @ [\<lparr>date = cacheEndTimestamp, staked = staked lastPoint,
                                       unstaked = unstaked lastPoint,
                                       locked = round6 (js_min (sumLocked vestingSchedules cacheEndTime)
                                                          (staked lastPoint)),
                                       realized_rewards = realized_rewards lastPoint\<rparr>]
                            else pts1)
                     in Some (sortTimeline rt pts2)))
          else if endDate \<noteq> [] \<and> pts \<noteq> [] then
            (let lastTimelineDate = date (last pts);
                 cacheEndTimestamp = endDate @ ''T23:59:59Z''
             in if lastTimelineDate < cacheEndTimestamp then
                  (let lastPoint = last pts
                   in Some (pts @ [\<lparr>date = cacheEndTimestamp, staked = staked lastPoint,
                                    unstaked = unstaked lastPoint, locked = locked lastPoint,
                                    realized_rewards = realized_rewards lastPoint\<rparr>]))
                else Some pts)
          else Some pts)"

section \<open>Summary and lookup\<close>

text \<open>
  The day count. \<^verbatim>\<open>new Date(s)\<close> does not throw on a string that does not parse: it
  returns an Invalid Date, whose time value is NaN. So the body of the \<^verbatim>\<open>try\<close> always
  completes, the \<^verbatim>\<open>catch\<close> is never entered, and the initial value
  \<^verbatim>\<open>timeline.length\<close> is always overwritten.
\<close>

definition daysActive :: "runtime \<Rightarrow> string \<Rightarrow> string \<Rightarrow> jsnum" where
  "daysActive rt firstDate lastActivityDate =
     (let firstDt = Date_parse rt firstDate;
          lastActivityDt = Date_parse rt lastActivityDate
      in js_add (js_floor (js_div (js_sub lastActivityDt firstDt) (Fin (1000 * 60 * 60 * 24))))
           (Fin 1))"

text \<open>
  The summary. The timeline is not empty here: the lookup has returned before on an empty
  timeline, and the extension only adds points.
\<close>

definition makeSummary ::
  "runtime \<Rightarrow> AddressData \<Rightarrow> TimelinePoint list \<Rightarrow> Operation list \<Rightarrow> WalletSummary" where
  "makeSummary rt addrData pts ops =
     (let firstDate = date (hd pts);
          lastActivityDate = (if ops \<noteq> [] then op_date (last ops) else date (hd pts));
          cur = (case current addrData of Some c \<Rightarrow> c | None \<Rightarrow> [0, 0, 0, 0, 0]);
          currentStaked = (if 0 < length cur then Fin (cur ! 0) else staked (last pts));
          currentUnstaked = (if 1 < length cur then Fin (cur ! 1) else unstaked (last pts));
          currentLocked = locked (last pts)
      in \<lparr>total_operations = length ops,
          current_staked = round6 currentStaked,
          current_unstaked = round6 currentUnstaked,
          current_locked = round6 currentLocked,
          summary_realized_rewards = realized_rewards (last pts),
          first_stake_date = firstDate,
          last_activity_date = lastActivityDate,
          days_active = daysActive rt firstDate lastActivityDate\<rparr>)"

text \<open>The lookup of one wallet. \<open>None\<close>: the source does not return.\<close>

definition parseWalletTimeline ::
  "runtime \<Rightarrow> string \<Rightarrow> StakerCache \<Rightarrow> WalletTimelineData option" where
  "parseWalletTimeline rt walletAddress cache =
     (case addresses cache walletAddress of
        None \<Rightarrow> Some (NotFound walletAddress WalletNotInCache)
      | Some addrData \<Rightarrow>
          if first_event addrData = None \<or> last_event addrData = None
          then Some (NotFound walletAddress NoEventData)
          else
            let walletEvents =
                  filter (\<lambda>e. 4 < length e \<and> e ! 4 = JStr walletAddress) (events cache)
            in if walletEvents = [] then Some (NotFound walletAddress NoEventsForWallet)
               else
                 (case buildBalanceTimeline rt walletEvents of
                    (pts0, ops, vestingSchedules) \<Rightarrow>
                      if pts0 = [] then Some (NotFound walletAddress FailedToBuildTimeline)
                      else
                        (case extendTimeline rt (meta_end cache) pts0 vestingSchedules of
                           None \<Rightarrow> None
                         | Some pts \<Rightarrow>
                             Some (Found
                               \<lparr>wallet = walletAddress,
                                date_range = (date (hd pts), date (last pts)),
                                timeline = pts,
                                operations = ops,
                                summary = makeSummary rt addrData pts ops\<rparr>))))"

section \<open>A runtime for the examples\<close>

text \<open>
  The examples of this theory run on an instance of the runtime for the two timestamp
  formats of the archive, \<^verbatim>\<open>YYYY-MM-DDTHH:MM:SSZ\<close> and \<^verbatim>\<open>YYYY-MM-DDTHH:MM:SS.sssZ\<close>
  (UTC, years 0000 to 9999): a string of another form is an Invalid Date here,
  \<open>iso_format\<close> prints a time value as \<^verbatim>\<open>toISOString\<close> does, and strings are compared
  by their characters. The days since the epoch follow the proleptic Gregorian
  calendar.
\<close>

definition digit_val :: "char \<Rightarrow> nat option" where
  "digit_val c =
     (let n = (of_char c :: nat) in if 48 \<le> n \<and> n \<le> 57 then Some (n - 48) else None)"

fun digits_val :: "nat \<Rightarrow> string \<Rightarrow> nat option" where
  "digits_val acc [] = Some acc"
| "digits_val acc (c # cs) =
     (case digit_val c of None \<Rightarrow> None | Some d \<Rightarrow> digits_val (10 * acc + d) cs)"

definition days_from_civil :: "int \<Rightarrow> int \<Rightarrow> int \<Rightarrow> int" where
  "days_from_civil y m d =
     (let y1 = (if m \<le> 2 then y - 1 else y);
          era = y1 div 400;
          yoe = y1 - era * 400;
          doy = (153 * (if 2 < m then m - 3 else m + 9) + 2) div 5 + d - 1;
          doe = yoe * 365 + yoe div 4 - yoe div 100 + doy
      in era * 146097 + doe - 719468)"

definition days_in_month :: "int \<Rightarrow> int \<Rightarrow> int" where
  "days_in_month y m =
     (if m = 2 then (if y mod 4 = 0 \<and> (y mod 100 \<noteq> 0 \<or> y mod 400 = 0) then 29 else 28)
      else if m = 4 \<or> m = 6 \<or> m = 9 \<or> m = 11 then 30 else 31)"

definition iso_fields :: "string \<Rightarrow> (nat \<times> nat \<times> nat \<times> nat \<times> nat \<times> nat) option" where
  "iso_fields s =
     (if s ! 4 = CHR ''-'' \<and> s ! 7 = CHR ''-'' \<and> s ! 10 = CHR ''T'' \<and>
         s ! 13 = CHR '':'' \<and> s ! 16 = CHR '':''
      then
        (case (digits_val 0 (take 4 s), digits_val 0 (take 2 (drop 5 s)),
               digits_val 0 (take 2 (drop 8 s)), digits_val 0 (take 2 (drop 11 s)),
               digits_val 0 (take 2 (drop 14 s)), digits_val 0 (take 2 (drop 17 s))) of
           (Some y, Some m, Some d, Some h, Some mi, Some sec) \<Rightarrow> Some (y, m, d, h, mi, sec)
         | _ \<Rightarrow> None)
      else None)"

definition iso_parse :: "string \<Rightarrow> jsnum" where
  "iso_parse s =
     (case (if length s = 20 \<and> s ! 19 = CHR ''Z'' then Some 0
            else if length s = 24 \<and> s ! 19 = CHR ''.'' \<and> s ! 23 = CHR ''Z''
            then digits_val 0 (take 3 (drop 20 s)) else None) of
        None \<Rightarrow> NaN
      | Some ms \<Rightarrow>
          (case iso_fields (take 19 s) of
             None \<Rightarrow> NaN
           | Some (y, m, d, h, mi, sec) \<Rightarrow>
               if 1 \<le> m \<and> m \<le> 12 \<and> 1 \<le> d \<and> int d \<le> days_in_month (int y) (int m) \<and>
                  h \<le> 23 \<and> mi \<le> 59 \<and> sec \<le> 59
               then Fin (of_int ((((days_from_civil (int y) (int m) (int d) * 24 + int h) * 60
                           + int mi) * 60 + int sec) * 1000 + int ms))
               else NaN))"

definition digit_char :: "int \<Rightarrow> char" where
  "digit_char d =
     (if d = 0 then CHR ''0'' else if d = 1 then CHR ''1'' else if d = 2 then CHR ''2''
      else if d = 3 then CHR ''3'' else if d = 4 then CHR ''4'' else if d = 5 then CHR ''5''
      else if d = 6 then CHR ''6'' else if d = 7 then CHR ''7'' else if d = 8 then CHR ''8''
      else CHR ''9'')"

definition pad2 :: "int \<Rightarrow> string" where
  "pad2 n = [digit_char (n div 10 mod 10), digit_char (n mod 10)]"

definition pad3 :: "int \<Rightarrow> string" where
  "pad3 n = digit_char (n div 100 mod 10) # pad2 n"

definition pad4 :: "int \<Rightarrow> string" where
  "pad4 n = digit_char (n div 1000 mod 10) # pad3 n"

definition iso_format :: "rat \<Rightarrow> string" where
  "iso_format t =
     (let ms = floor t;
          z = ms div 86400000 + 719468;
          r = ms mod 86400000;
          era = z div 146097;
          doe = z - era * 146097;
          yoe = (doe - doe div 1460 + doe div 36524 - doe div 146096) div 365;
          doy = doe - (365 * yoe + yoe div 4 - yoe div 100);
          mp = (5 * doy + 2) div 153;
          d = doy - (153 * mp + 2) div 5 + 1;
          m = (if mp < 10 then mp + 3 else mp - 9);
          y = yoe + era * 400 + (if m \<le> 2 then 1 else 0)
      in pad4 y @ ''-'' @ pad2 m @ ''-'' @ pad2 d @ ''T'' @
         pad2 (r div 3600000) @ '':'' @ pad2 (r div 60000 mod 60) @ '':'' @
         pad2 (r div 1000 mod 60) @ ''.'' @ pad3 (r mod 1000) @ ''Z'')"

definition isoRuntime :: runtime where
  "isoRuntime =
     \<lparr>Date_parse = iso_parse, toISOString = iso_format,
      localeCompare = (\<lambda>a b. if a < b then - 1 else if a = b then 0 else 1)\<rparr>"

section \<open>Example data\<close>

text \<open>
  Events of one wallet for the examples: a stake of 300, a vesting schedule over 250 (cliff
  24 hours, 100 every 24 hours), an update of that schedule, a second schedule over 100,
  a vesting event with a zero period, an unstake of 5 by a wallet that holds nothing, and
  a stake whose timestamp is not a date. The cache of the examples holds the wallet
  \<^verbatim>\<open>wallet\<close> and ends on 2024-01-11.
\<close>

definition example_stake :: StakerEvent where
  "example_stake =
     [JStr ''sig1'', JStr ''2024-01-01T00:00:00Z'', JNum 1, JNum 1, JStr ''wallet'',
      JNum 300, JNum 0, JNum 0, JNum 0, JNull, JNum 0]"

definition example_set_vesting :: StakerEvent where
  "example_set_vesting =
     [JStr ''sig2'', JStr ''2024-01-02T00:00:00Z'', JNum 2, JNum 6, JStr ''wallet'',
      JNum 250, JNum 0, JNum 0, JNum 0, JNull, JNum 0, JNum 0, JNum 24, JNum 24, JNum 100]"

definition example_update_vesting :: StakerEvent where
  "example_update_vesting =
     [JStr ''sig3'', JStr ''2024-01-03T00:00:00Z'', JNum 3, JNum 6, JStr ''wallet'',
      JNum 250, JNum 0, JNum 0, JNum 0, JNull, JNum 0, JNum 0, JNum 48, JNum 12, JNum 50]"

definition example_second_vesting :: StakerEvent where
  "example_second_vesting =
     [JStr ''sig4'', JStr ''2024-01-05T00:00:00Z'', JNum 4, JNum 6, JStr ''wallet'',
      JNum 100, JNum 0, JNum 0, JNum 0, JNull, JNum 0, JNum 0, JNum 0, JNum 12, JNum 10]"

definition example_zero_period :: StakerEvent where
  "example_zero_period =
     [JStr ''sig5'', JStr ''2024-01-03T00:00:00Z'', JNum 3, JNum 6, JStr ''wallet'',
      JNum 250, JNum 0, JNum 0, JNum 0, JNull, JNum 0, JNum 0, JNum 24, JNum 0, JNum 100]"


definition example_state :: balance_state where
  "example_state = foldl (processEvent isoRuntime) initial_state [example_stake, example_set_vesting]"

definition example_bad_timestamp :: StakerEvent where
  "example_bad_timestamp =
     [JStr ''sig7'', JStr ''not-a-date'', JNum 1, JNum 1, JStr ''wallet'',
      JNum 300, JNum 0, JNum 0, JNum 0, JNull, JNum 0]"

definition example_address :: AddressData where
  "example_address = \<lparr>first_event = Some 0, last_event = Some 0, current = Some [300, 0, 0, 0, 0]\<rparr>"

definition example_cache :: "StakerEvent list \<Rightarrow> StakerCache" where
  "example_cache evs =
     \<lparr>addresses = [''wallet'' \<mapsto> example_address], events = evs, meta_end = Some ''2024-01-11''\<rparr>"

text \<open>
  A wallet whose vesting schedule has a negative cliff: a stake of 300 on 2024-01-01 and,
  a day later, a schedule over 250 whose cliff ended two days before the schedule was
  set.
\<close>

definition example_first_stake :: StakerEvent where
  "example_first_stake =
     [JStr ''sig8'', JStr ''2024-01-01T00:00:00.000Z'', JNum 1, JNum 1, JStr ''wallet'',
      JNum 300, JNum 0, JNum 0, JNum 0, JNull, JNum 0]"

definition example_early_cliff :: StakerEvent where
  "example_early_cliff =
     [JStr ''sig9'', JStr ''2024-01-02T00:00:00.000Z'', JNum 2, JNum 6, JStr ''wallet'',
      JNum 250, JNum 0, JNum 0, JNum 0, JNull, JNum 0, JNum 0, JNum (- 48), JNum 24, JNum 100]"

section \<open>Predicates of the invariants\<close>









section \<open>Arithmetic of finite numbers\<close>


lemma js_gt_fin [simp]: "js_gt (Fin a) (Fin b) = (b < a)"
  by (simp add: js_gt_def)

lemma js_sub_fin [simp]: "js_sub (Fin a) (Fin b) = Fin (a - b)"
  by (simp add: js_sub_def)

lemma calc_fin:
  "p \<noteq> 0 \<Longrightarrow>
   calculateLockedAmount \<lparr>startTime = Fin s, lockedTuna = Fin L, cliffHours = Fin c,
      unlockPeriodHours = Fin p, unlockRateTuna = Fin r\<rparr> (Fin t) =
   Fin (if (t - s) / 3600000 < c then L
        else max 0 (L - of_int (floor (((t - s) / 3600000 - c) / p)) * r))"
  by (simp add: calculateLockedAmount_def Let_def max_def)

section \<open>Properties of the vesting model\<close>

text \<open>
  Claim C3. The schedule with \<open>cliffHours = 24\<close>, \<open>unlockPeriodHours = 24\<close>,
  \<open>unlockRateTuna = 100\<close> and \<open>lockedTuna = 250\<close> that starts at \<open>t0\<close> (times in
  milliseconds) has \<open>250\<close> locked at every instant before \<open>t0 + 24h\<close>, \<open>150\<close> at
  \<open>t0 + 48h\<close>, \<open>50\<close> at \<open>t0 + 72h\<close>, and \<open>0\<close> at every instant from \<open>t0 + 96h\<close> on.
\<close>

theorem vesting_boundary_test:
  "(t < t0 + 24 * 3600000 \<longrightarrow>
      calculateLockedAmount \<lparr>startTime = Fin t0, lockedTuna = Fin 250, cliffHours = Fin 24,
        unlockPeriodHours = Fin 24, unlockRateTuna = Fin 100\<rparr> (Fin t) = Fin 250) \<and>
   calculateLockedAmount \<lparr>startTime = Fin t0, lockedTuna = Fin 250, cliffHours = Fin 24,
        unlockPeriodHours = Fin 24, unlockRateTuna = Fin 100\<rparr> (Fin (t0 + 48 * 3600000)) = Fin 150 \<and>
   calculateLockedAmount \<lparr>startTime = Fin t0, lockedTuna = Fin 250, cliffHours = Fin 24,
        unlockPeriodHours = Fin 24, unlockRateTuna = Fin 100\<rparr> (Fin (t0 + 72 * 3600000)) = Fin 50 \<and>
   (t0 + 96 * 3600000 \<le> t' \<longrightarrow>
      calculateLockedAmount \<lparr>startTime = Fin t0, lockedTuna = Fin 250, cliffHours = Fin 24,
        unlockPeriodHours = Fin 24, unlockRateTuna = Fin 100\<rparr> (Fin t') = Fin 0)"
proof (intro conjI impI)
  assume "t < t0 + 24 * 3600000"
  then have "(t - t0) / 3600000 < 24" by simp
  then show "calculateLockedAmount \<lparr>startTime = Fin t0, lockedTuna = Fin 250, cliffHours = Fin 24,
        unlockPeriodHours = Fin 24, unlockRateTuna = Fin 100\<rparr> (Fin t) = Fin 250"
    by (simp add: calc_fin)
next
  show "calculateLockedAmount \<lparr>startTime = Fin t0, lockedTuna = Fin 250, cliffHours = Fin 24,
        unlockPeriodHours = Fin 24, unlockRateTuna = Fin 100\<rparr> (Fin (t0 + 48 * 3600000)) = Fin 150"
    by (simp add: calc_fin)
next
  show "calculateLockedAmount \<lparr>startTime = Fin t0, lockedTuna = Fin 250, cliffHours = Fin 24,
        unlockPeriodHours = Fin 24, unlockRateTuna = Fin 100\<rparr> (Fin (t0 + 72 * 3600000)) = Fin 50"
    by (simp add: calc_fin)
next
  assume h: "t0 + 96 * 3600000 \<le> t'"
  then have a: "\<not> (t' - t0) / 3600000 < 24" by simp
  from h have "3 \<le> ((t' - t0) / 3600000 - 24) / 24" by simp
  then have "3 \<le> floor (((t' - t0) / 3600000 - 24) / 24)" by (simp add: le_floor_iff)
  then have "(3::rat) \<le> of_int (floor (((t' - t0) / 3600000 - 24) / 24))"
    by (metis of_int_le_iff of_int_numeral)
  then have "250 - of_int (floor (((t' - t0) / 3600000 - 24) / 24)) * 100 \<le> (0::rat)"
    by linarith
  with a show "calculateLockedAmount \<lparr>startTime = Fin t0, lockedTuna = Fin 250, cliffHours = Fin 24,
        unlockPeriodHours = Fin 24, unlockRateTuna = Fin 100\<rparr> (Fin t') = Fin 0"
    by (simp add: calc_fin max_def)
qed

theorem vesting_boundary_test_witness:
  "(1000::rat) < 0 + 24 * 3600000 \<and>
   calculateLockedAmount \<lparr>startTime = Fin 0, lockedTuna = Fin 250, cliffHours = Fin 24,
        unlockPeriodHours = Fin 24, unlockRateTuna = Fin 100\<rparr> (Fin 1000) = Fin 250 \<and>
   calculateLockedAmount \<lparr>startTime = Fin 0, lockedTuna = Fin 250, cliffHours = Fin 24,
        unlockPeriodHours = Fin 24, unlockRateTuna = Fin 100\<rparr> (Fin (0 + 48 * 3600000)) = Fin 150 \<and>
   calculateLockedAmount \<lparr>startTime = Fin 0, lockedTuna = Fin 250, cliffHours = Fin 24,
        unlockPeriodHours = Fin 24, unlockRateTuna = Fin 100\<rparr> (Fin (0 + 72 * 3600000)) = Fin 50 \<and>
   (0::rat) + 96 * 3600000 \<le> 400000000 \<and>
   calculateLockedAmount \<lparr>startTime = Fin 0, lockedTuna = Fin 250, cliffHours = Fin 24,
        unlockPeriodHours = Fin 24, unlockRateTuna = Fin 100\<rparr> (Fin 400000000) = Fin 0"
  using vesting_boundary_test [where t = 1000 and ?t0.0 = 0 and t' = 400000000]
  by (simp add: calc_fin)








section \<open>Properties of one step of the accumulator\<close>

lemma num_or0_JNum: "i < length event \<Longrightarrow> event ! i = JNum x \<Longrightarrow> num_or0 event i = Fin x"
  by (simp add: num_or0_def js_or0_def js_truthy_def)


lemma processEvent_totals:
  "11 \<le> length event \<Longrightarrow>
   bs_staked (processEvent rt st event) = bs_staked (snd (applyEvent rt st event)) \<and>
   bs_unstaked (processEvent rt st event) = bs_unstaked (snd (applyEvent rt st event)) \<and>
   bs_realized_rewards (processEvent rt st event) = bs_realized_rewards (snd (applyEvent rt st event)) \<and>
   bs_vestingSchedules (processEvent rt st event) = bs_vestingSchedules (snd (applyEvent rt st event))"
  by (simp add: processEvent_def Let_def)

lemma applyEvent_not6:
  "event ! 3 \<noteq> JNum 6 \<Longrightarrow>
   bs_staked (snd (applyEvent rt st event)) = js_add (bs_staked st) (num_or0 event 5) \<and>
   bs_unstaked (snd (applyEvent rt st event)) = js_add (bs_unstaked st) (num_or0 event 6) \<and>
   bs_vestingSchedules (snd (applyEvent rt st event)) = bs_vestingSchedules st"
  by (simp add: applyEvent_def Let_def)

lemma applyEvent_6:
  "event ! 3 = JNum 6 \<Longrightarrow>
   bs_staked (snd (applyEvent rt st event)) = bs_staked st \<and>
   bs_unstaked (snd (applyEvent rt st event)) = bs_unstaked st \<and>
   bs_realized_rewards (snd (applyEvent rt st event)) = bs_realized_rewards st \<and>
   bs_timeline (snd (applyEvent rt st event)) = bs_timeline st \<and>
   bs_vestingSchedules (snd (applyEvent rt st event)) =
     (if js_gt (js_abs (num_or0 event 5)) (Fin 0) \<and> js_gt (num_or0 event 13) (Fin 0) \<and>
         js_gt (num_or0 event 14) (Fin 0)
      then upsertSchedule (bs_vestingSchedules st)
             \<lparr>startTime = Date_parse rt (str_at event 1), lockedTuna = js_abs (num_or0 event 5),
              cliffHours = num_or0 event 12, unlockPeriodHours = num_or0 event 13,
              unlockRateTuna = num_or0 event 14\<rparr> (js_abs (num_or0 event 5))
      else bs_vestingSchedules st)"
  by (simp add: applyEvent_def Let_def)

text \<open>
  A \<^verbatim>\<open>set_vesting\<close> event with \<open>d_stake = 250\<close> leaves the running staked total at \<open>0\<close>:
  the branch for type 6 applies no delta.
\<close>

theorem set_vesting_keeps_totals_counterexample:
  "11 \<le> length example_set_vesting \<and> example_set_vesting ! 5 = JNum 250 \<and>
   bs_staked (processEvent isoRuntime initial_state example_set_vesting) \<noteq>
     js_add (bs_staked initial_state) (Fin 250)"
  by code_simp

text \<open>
  Claim C2, amended. For every event with at least 11 fields whose type is not
  \<^verbatim>\<open>set_vesting\<close> (any of the other six ordinals, or an unknown one), the accumulator adds
  \<open>d_stake\<close> to the running staked total and \<open>d_pending\<close> to the running unstaked total.
  For a \<^verbatim>\<open>set_vesting\<close> event both totals stay as they are.
\<close>

theorem deltas_applied_except_set_vesting:
  assumes "11 \<le> length event" and "event ! 5 = JNum ds" and "event ! 6 = JNum dp"
  shows "(event ! 3 \<noteq> JNum 6 \<longrightarrow>
            bs_staked (processEvent rt st event) = js_add (bs_staked st) (Fin ds) \<and>
            bs_unstaked (processEvent rt st event) = js_add (bs_unstaked st) (Fin dp)) \<and>
         (event ! 3 = JNum 6 \<longrightarrow>
            bs_staked (processEvent rt st event) = bs_staked st \<and>
            bs_unstaked (processEvent rt st event) = bs_unstaked st)"
proof -
  have d5: "num_or0 event 5 = Fin ds" using assms by (simp add: num_or0_JNum)
  have d6: "num_or0 event 6 = Fin dp" using assms by (simp add: num_or0_JNum)
  show ?thesis
    using processEvent_totals [OF assms(1), of rt st] applyEvent_not6 [of event rt st]
      applyEvent_6 [of event rt st] d5 d6
    by simp
qed

theorem deltas_applied_except_set_vesting_witness:
  "11 \<le> length example_stake \<and> example_stake ! 5 = JNum 300 \<and> example_stake ! 6 = JNum 0 \<and>
   example_stake ! 3 \<noteq> JNum 6 \<and>
   bs_staked (processEvent isoRuntime example_state example_stake) =
     js_add (bs_staked example_state) (Fin 300) \<and>
   bs_unstaked (processEvent isoRuntime example_state example_stake) =
     js_add (bs_unstaked example_state) (Fin 0) \<and>
   11 \<le> length example_set_vesting \<and> example_set_vesting ! 5 = JNum 250 \<and>
   example_set_vesting ! 6 = JNum 0 \<and> example_set_vesting ! 3 = JNum 6 \<and>
   bs_staked (processEvent isoRuntime example_state example_set_vesting) = bs_staked example_state \<and>
   bs_unstaked (processEvent isoRuntime example_state example_set_vesting) =
     bs_unstaked example_state"
proof -
  have a: "11 \<le> length example_stake" "example_stake ! 5 = JNum 300"
    "example_stake ! 6 = JNum 0" "example_stake ! 3 \<noteq> JNum 6"
    by (simp_all add: example_stake_def)
  have b: "11 \<le> length example_set_vesting" "example_set_vesting ! 5 = JNum 250"
    "example_set_vesting ! 6 = JNum 0" "example_set_vesting ! 3 = JNum 6"
    by (simp_all add: example_set_vesting_def)
  from deltas_applied_except_set_vesting [OF a(1) a(2) a(3), of isoRuntime example_state]
    deltas_applied_except_set_vesting [OF b(1) b(2) b(3), of isoRuntime example_state] a b
  show ?thesis by blast
qed

lemma findIndex_ge: "- 1 \<le> findIndex P xs"
  by (induction xs) (auto simp: Let_def)

lemma findIndex_none: "(findIndex P xs = - 1) = (\<forall>x\<in>set xs. \<not> P x)"
proof (induction xs)
  case Nil
  then show ?case by simp
next
  case (Cons x xs)
  have "findIndex P xs < 0 \<longleftrightarrow> findIndex P xs = - 1"
    using findIndex_ge [of P xs] by linarith
  with Cons show ?case by (auto simp: Let_def)
qed

lemma findIndex_first:
  "i < length xs \<Longrightarrow> P (xs ! i) \<Longrightarrow> (\<forall>j<i. \<not> P (xs ! j)) \<Longrightarrow> findIndex P xs = int i"
proof (induction xs arbitrary: i)
  case Nil
  then show ?case by simp
next
  case (Cons x xs)
  show ?case
  proof (cases i)
    case 0
    with Cons.prems show ?thesis by simp
  next
    case (Suc k)
    with Cons.prems have k: "k < length xs" "P (xs ! k)" by simp_all
    from Cons.prems Suc have nj: "\<forall>j<k. \<not> P (xs ! j)" by auto
    from Cons.prems Suc have nx: "\<not> P x" by auto
    from Cons.IH [OF k nj] nx Suc show ?thesis by (simp add: Let_def)
  qed
qed

lemma js_eq_pos: "js_gt amt (Fin 0) \<Longrightarrow> js_eq x amt = (x = amt)"
  by (cases amt; cases x) (auto simp: js_gt_def)

text \<open>
  Claim C6. The accumulator processes a \<^verbatim>\<open>set_vesting\<close> event with at least 11 fields;
  \<open>amt\<close> is its locked amount \<open>|d_stake|\<close> and \<open>newSchedule\<close> the schedule read from the
  event. When amount, period and rate are all positive: if the schedule at index \<open>i\<close> is
  the first one whose locked amount equals \<open>amt\<close>, it is replaced in place by
  \<open>newSchedule\<close>; if no schedule has that locked amount, \<open>newSchedule\<close> is appended. When
  the positivity test fails, the schedules stay as they are.
\<close>

theorem set_vesting_replaces_or_appends:
  assumes "11 \<le> length event" and "event ! 3 = JNum 6"
    and "amt = js_abs (num_or0 event 5)"
    and "newSchedule =
           \<lparr>startTime = Date_parse rt (str_at event 1), lockedTuna = amt,
            cliffHours = num_or0 event 12, unlockPeriodHours = num_or0 event 13,
            unlockRateTuna = num_or0 event 14\<rparr>"
  shows "(js_gt amt (Fin 0) \<and> js_gt (num_or0 event 13) (Fin 0) \<and> js_gt (num_or0 event 14) (Fin 0) \<longrightarrow>
            (\<forall>i. i < length (bs_vestingSchedules st) \<and>
                  lockedTuna (bs_vestingSchedules st ! i) = amt \<and>
                  (\<forall>j<i. lockedTuna (bs_vestingSchedules st ! j) \<noteq> amt) \<longrightarrow>
                  bs_vestingSchedules (processEvent rt st event) =
                    (bs_vestingSchedules st)[i := newSchedule]) \<and>
            ((\<forall>s\<in>set (bs_vestingSchedules st). lockedTuna s \<noteq> amt) \<longrightarrow>
               bs_vestingSchedules (processEvent rt st event) =
                 bs_vestingSchedules st @ [newSchedule])) \<and>
         (\<not> (js_gt amt (Fin 0) \<and> js_gt (num_or0 event 13) (Fin 0) \<and> js_gt (num_or0 event 14) (Fin 0)) \<longrightarrow>
            bs_vestingSchedules (processEvent rt st event) = bs_vestingSchedules st)"
proof -
  have eq: "bs_vestingSchedules (processEvent rt st event) =
     (if js_gt amt (Fin 0) \<and> js_gt (num_or0 event 13) (Fin 0) \<and> js_gt (num_or0 event 14) (Fin 0)
      then upsertSchedule (bs_vestingSchedules st) newSchedule amt
      else bs_vestingSchedules st)"
    using processEvent_totals [OF assms(1), of rt st] applyEvent_6 [OF assms(2), of rt st]
      assms(3) assms(4)
    by simp
  have repl: "bs_vestingSchedules (processEvent rt st event) =
                    (bs_vestingSchedules st)[i := newSchedule]"
    if pos: "js_gt amt (Fin 0) \<and> js_gt (num_or0 event 13) (Fin 0) \<and> js_gt (num_or0 event 14) (Fin 0)"
      and i: "i < length (bs_vestingSchedules st) \<and>
                  lockedTuna (bs_vestingSchedules st ! i) = amt \<and>
                  (\<forall>j<i. lockedTuna (bs_vestingSchedules st ! j) \<noteq> amt)" for i
  proof -
    from pos have p: "js_gt amt (Fin 0)" by simp
    have "findIndex (\<lambda>s. js_eq (lockedTuna s) amt) (bs_vestingSchedules st) = int i"
      using i by (intro findIndex_first) (simp_all add: js_eq_pos [OF p])
    with eq pos show ?thesis by (simp add: upsertSchedule_def)
  qed
  have app: "bs_vestingSchedules (processEvent rt st event) =
                 bs_vestingSchedules st @ [newSchedule]"
    if pos: "js_gt amt (Fin 0) \<and> js_gt (num_or0 event 13) (Fin 0) \<and> js_gt (num_or0 event 14) (Fin 0)"
      and no: "\<forall>s\<in>set (bs_vestingSchedules st). lockedTuna s \<noteq> amt"
  proof -
    from pos have p: "js_gt amt (Fin 0)" by simp
    have "findIndex (\<lambda>s. js_eq (lockedTuna s) amt) (bs_vestingSchedules st) = - 1"
      using no by (simp add: findIndex_none js_eq_pos [OF p])
    with eq pos show ?thesis by (simp add: upsertSchedule_def)
  qed
  from eq repl app show ?thesis by auto
qed

theorem set_vesting_replaces_or_appends_witness:
  "11 \<le> length example_update_vesting \<and> example_update_vesting ! 3 = JNum 6 \<and>
   js_gt (js_abs (num_or0 example_update_vesting 5)) (Fin 0) \<and>
   js_gt (num_or0 example_update_vesting 13) (Fin 0) \<and>
   js_gt (num_or0 example_update_vesting 14) (Fin 0) \<and>
   0 < length (bs_vestingSchedules example_state) \<and>
   lockedTuna (bs_vestingSchedules example_state ! 0) = js_abs (num_or0 example_update_vesting 5) \<and>
   bs_vestingSchedules (processEvent isoRuntime example_state example_update_vesting) =
     (bs_vestingSchedules example_state)
       [0 := \<lparr>startTime = Date_parse isoRuntime (str_at example_update_vesting 1),
              lockedTuna = js_abs (num_or0 example_update_vesting 5),
              cliffHours = num_or0 example_update_vesting 12,
              unlockPeriodHours = num_or0 example_update_vesting 13,
              unlockRateTuna = num_or0 example_update_vesting 14\<rparr>] \<and>
   11 \<le> length example_second_vesting \<and> example_second_vesting ! 3 = JNum 6 \<and>
   js_gt (js_abs (num_or0 example_second_vesting 5)) (Fin 0) \<and>
   js_gt (num_or0 example_second_vesting 13) (Fin 0) \<and>
   js_gt (num_or0 example_second_vesting 14) (Fin 0) \<and>
   list_all (\<lambda>s. lockedTuna s \<noteq> js_abs (num_or0 example_second_vesting 5))
     (bs_vestingSchedules example_state) \<and>
   bs_vestingSchedules (processEvent isoRuntime example_state example_second_vesting) =
     bs_vestingSchedules example_state @
       [\<lparr>startTime = Date_parse isoRuntime (str_at example_second_vesting 1),
         lockedTuna = js_abs (num_or0 example_second_vesting 5),
         cliffHours = num_or0 example_second_vesting 12,
         unlockPeriodHours = num_or0 example_second_vesting 13,
         unlockRateTuna = num_or0 example_second_vesting 14\<rparr>] \<and>
   11 \<le> length example_zero_period \<and> example_zero_period ! 3 = JNum 6 \<and>
   \<not> js_gt (num_or0 example_zero_period 13) (Fin 0) \<and>
   bs_vestingSchedules (processEvent isoRuntime example_state example_zero_period) =
     bs_vestingSchedules example_state"
proof -
  have u: "11 \<le> length example_update_vesting" "example_update_vesting ! 3 = JNum 6"
    "js_gt (js_abs (num_or0 example_update_vesting 5)) (Fin 0)"
    "js_gt (num_or0 example_update_vesting 13) (Fin 0)"
    "js_gt (num_or0 example_update_vesting 14) (Fin 0)"
    by code_simp+
  have u2: "0 < length (bs_vestingSchedules example_state)"
    "lockedTuna (bs_vestingSchedules example_state ! 0) = js_abs (num_or0 example_update_vesting 5)"
    by code_simp+
  have a: "11 \<le> length example_second_vesting" "example_second_vesting ! 3 = JNum 6"
    "js_gt (js_abs (num_or0 example_second_vesting 5)) (Fin 0)"
    "js_gt (num_or0 example_second_vesting 13) (Fin 0)"
    "js_gt (num_or0 example_second_vesting 14) (Fin 0)"
    by code_simp+
  have a2: "list_all (\<lambda>s. lockedTuna s \<noteq> js_abs (num_or0 example_second_vesting 5))
     (bs_vestingSchedules example_state)"
    by code_simp
  have z: "11 \<le> length example_zero_period" "example_zero_period ! 3 = JNum 6"
    "\<not> js_gt (num_or0 example_zero_period 13) (Fin 0)"
    by code_simp+
  from set_vesting_replaces_or_appends [OF u(1) u(2) refl refl, where rt = isoRuntime and st = example_state] u u2
  have c1: "bs_vestingSchedules (processEvent isoRuntime example_state example_update_vesting) =
     (bs_vestingSchedules example_state)
       [0 := \<lparr>startTime = Date_parse isoRuntime (str_at example_update_vesting 1),
              lockedTuna = js_abs (num_or0 example_update_vesting 5),
              cliffHours = num_or0 example_update_vesting 12,
              unlockPeriodHours = num_or0 example_update_vesting 13,
              unlockRateTuna = num_or0 example_update_vesting 14\<rparr>]"
    by simp
  from set_vesting_replaces_or_appends [OF a(1) a(2) refl refl, where rt = isoRuntime and st = example_state] a a2
  have c2: "bs_vestingSchedules (processEvent isoRuntime example_state example_second_vesting) =
     bs_vestingSchedules example_state @
       [\<lparr>startTime = Date_parse isoRuntime (str_at example_second_vesting 1),
         lockedTuna = js_abs (num_or0 example_second_vesting 5),
         cliffHours = num_or0 example_second_vesting 12,
         unlockPeriodHours = num_or0 example_second_vesting 13,
         unlockRateTuna = num_or0 example_second_vesting 14\<rparr>]"
    by (simp add: list_all_iff)
  from set_vesting_replaces_or_appends [OF z(1) z(2) refl refl, where rt = isoRuntime and st = example_state] z
  have c3: "bs_vestingSchedules (processEvent isoRuntime example_state example_zero_period) =
     bs_vestingSchedules example_state"
    by simp
  from u u2 a a2 z c1 c2 c3 show ?thesis by simp
qed





lemma sumLocked_two:
  "sumLocked [s1, s2] t = js_add (calculateLockedAmount s1 t) (calculateLockedAmount s2 t)"
proof -
  have "js_add (Fin 0) x = x" for x by (cases x) simp_all
  then show ?thesis by (simp add: sumLocked_def)
qed





section \<open>Extension without vesting\<close>

lemma buildBalanceTimeline_Nil: "buildBalanceTimeline rt [] = ([], [], [])"
  by (simp add: buildBalanceTimeline_def initial_state_def)

lemma extendTimeline_no_vesting:
  "endDate \<noteq> [] \<Longrightarrow> date p < endDate @ ''T23:59:59Z'' \<Longrightarrow>
   extendTimeline rt (Some endDate) [p] [] = Some [p, p\<lparr>date := endDate @ ''T23:59:59Z''\<rparr>]"
  by (simp add: extendTimeline_def Let_def)

text \<open>
  Claim C8. The wallet is in the cache, its events build a timeline of exactly one point
  \<open>p\<close> and no vesting schedule, and the end timestamp of the cache (the end date followed
  by \<^verbatim>\<open>T23:59:59Z\<close>) is later than the timestamp of \<open>p\<close> in the order of the timestamp
  strings. Then the lookup returns a timeline of exactly 2 points: \<open>p\<close>, and a point dated
  at the end timestamp whose staked, unstaked, locked and realized rewards are those of
  \<open>p\<close>.
\<close>

theorem extension_without_vesting:
  assumes "addresses cache walletAddress = Some addrData"
    and "first_event addrData \<noteq> None" and "last_event addrData \<noteq> None"
    and "buildBalanceTimeline rt
           (filter (\<lambda>e. 4 < length e \<and> e ! 4 = JStr walletAddress) (events cache)) = ([p], ops, [])"
    and "meta_end cache = Some endDate" and "endDate \<noteq> []"
    and "date p < endDate @ ''T23:59:59Z''"
  shows "\<exists>r. parseWalletTimeline rt walletAddress cache = Some (Found r) \<and>
             length (timeline r) = 2 \<and> timeline r ! 0 = p \<and>
             date (timeline r ! 1) = endDate @ ''T23:59:59Z'' \<and>
             staked (timeline r ! 1) = staked p \<and> unstaked (timeline r ! 1) = unstaked p \<and>
             locked (timeline r ! 1) = locked p \<and>
             realized_rewards (timeline r ! 1) = realized_rewards p"
proof -
  have ne: "filter (\<lambda>e. 4 < length e \<and> e ! 4 = JStr walletAddress) (events cache) \<noteq> []"
    using assms(4) by (auto simp: buildBalanceTimeline_Nil)
  have ext: "extendTimeline rt (meta_end cache) [p] [] =
               Some [p, p\<lparr>date := endDate @ ''T23:59:59Z''\<rparr>]"
    using assms(5) extendTimeline_no_vesting [OF assms(6) assms(7)] by simp
  have "parseWalletTimeline rt walletAddress cache =
          Some (Found \<lparr>wallet = walletAddress,
                  date_range = (date p, endDate @ ''T23:59:59Z''),
                  timeline = [p, p\<lparr>date := endDate @ ''T23:59:59Z''\<rparr>],
                  operations = ops,
                  summary = makeSummary rt addrData [p, p\<lparr>date := endDate @ ''T23:59:59Z''\<rparr>] ops\<rparr>)"
    using assms(1) assms(2) assms(3) assms(4) ne ext
    by (simp add: parseWalletTimeline_def Let_def)
  then show ?thesis by simp
qed

theorem extension_without_vesting_witness:
  "addresses (example_cache [example_stake]) ''wallet'' = Some example_address \<and>
   first_event example_address \<noteq> None \<and> last_event example_address \<noteq> None \<and>
   buildBalanceTimeline isoRuntime
     (filter (\<lambda>e. 4 < length e \<and> e ! 4 = JStr ''wallet'') (events (example_cache [example_stake]))) =
     ([\<lparr>date = ''2024-01-01T00:00:00Z'', staked = Fin 300, unstaked = Fin 0, locked = Fin 0,
        realized_rewards = Fin 0\<rparr>],
      [\<lparr>op_date = ''2024-01-01T00:00:00Z'', op_type = ''stake'', type_label = ''Stake'',
        amount = Fin 300, signature = ''sig1'', solscan_url = ''https://solscan.io/tx/sig1''\<rparr>],
      []) \<and>
   meta_end (example_cache [example_stake]) = Some ''2024-01-11'' \<and>
   ''2024-01-01T00:00:00Z'' < ''2024-01-11'' @ ''T23:59:59Z'' \<and>
   (\<exists>r. parseWalletTimeline isoRuntime ''wallet'' (example_cache [example_stake]) = Some (Found r) \<and>
        length (timeline r) = 2 \<and>
        timeline r ! 0 =
          \<lparr>date = ''2024-01-01T00:00:00Z'', staked = Fin 300, unstaked = Fin 0, locked = Fin 0,
             realized_rewards = Fin 0\<rparr> \<and>
        date (timeline r ! 1) = ''2024-01-11T23:59:59Z'' \<and>
        staked (timeline r ! 1) = Fin 300 \<and> unstaked (timeline r ! 1) = Fin 0 \<and>
        locked (timeline r ! 1) = Fin 0 \<and> realized_rewards (timeline r ! 1) = Fin 0)"
proof -
  have h1: "addresses (example_cache [example_stake]) ''wallet'' = Some example_address"
    by (simp add: example_cache_def)
  have h2: "first_event example_address \<noteq> None" "last_event example_address \<noteq> None"
    by (simp_all add: example_address_def)
  have h4: "buildBalanceTimeline isoRuntime
     (filter (\<lambda>e. 4 < length e \<and> e ! 4 = JStr ''wallet'') (events (example_cache [example_stake]))) =
     ([\<lparr>date = ''2024-01-01T00:00:00Z'', staked = Fin 300, unstaked = Fin 0, locked = Fin 0,
        realized_rewards = Fin 0\<rparr>],
      [\<lparr>op_date = ''2024-01-01T00:00:00Z'', op_type = ''stake'', type_label = ''Stake'',
        amount = Fin 300, signature = ''sig1'', solscan_url = ''https://solscan.io/tx/sig1''\<rparr>],
      [])"
    by code_simp
  have h5: "meta_end (example_cache [example_stake]) = Some ''2024-01-11''"
    by (simp add: example_cache_def)
  have h6: "''2024-01-11'' \<noteq> []" by simp
  have h7: "date \<lparr>date = ''2024-01-01T00:00:00Z'', staked = Fin 300, unstaked = Fin 0, locked = Fin 0,
        realized_rewards = Fin 0\<rparr> < ''2024-01-11'' @ ''T23:59:59Z''"
    by simp
  have h8: "''2024-01-01T00:00:00Z'' < ''2024-01-11'' @ ''T23:59:59Z''" by simp
  from extension_without_vesting [OF h1 h2(1) h2(2) h4 h5 h6 h7]
  have c: "\<exists>r. parseWalletTimeline isoRuntime ''wallet'' (example_cache [example_stake]) = Some (Found r) \<and>
        length (timeline r) = 2 \<and>
        timeline r ! 0 =
          \<lparr>date = ''2024-01-01T00:00:00Z'', staked = Fin 300, unstaked = Fin 0, locked = Fin 0,
             realized_rewards = Fin 0\<rparr> \<and>
        date (timeline r ! 1) = ''2024-01-11T23:59:59Z'' \<and>
        staked (timeline r ! 1) = Fin 300 \<and> unstaked (timeline r ! 1) = Fin 0 \<and>
        locked (timeline r ! 1) = Fin 0 \<and> realized_rewards (timeline r ! 1) = Fin 0"
    by simp
  from h1 h2 h4 h5 h8 c show ?thesis by blast
qed

section \<open>The day count\<close>

text \<open>
  The day count is NaN as soon as one of the two dates does not parse, and the floor of
  the difference in days plus one when both parse.
\<close>

lemma daysActive_invalid:
  "Date_parse rt firstDate = NaN \<or> Date_parse rt lastActivityDate = NaN \<Longrightarrow>
   daysActive rt firstDate lastActivityDate = NaN"
  by (cases "Date_parse rt firstDate"; cases "Date_parse rt lastActivityDate")
     (auto simp: daysActive_def js_sub_def)

lemma daysActive_valid:
  "Date_parse rt firstDate = Fin a \<Longrightarrow> Date_parse rt lastActivityDate = Fin b \<Longrightarrow>
   daysActive rt firstDate lastActivityDate = Fin (of_int (floor ((b - a) / 86400000)) + 1)"
  by (simp add: daysActive_def js_sub_def)

text \<open>The summary of every found wallet carries that day count.\<close>

lemma parseWalletTimeline_days_active:
  assumes "parseWalletTimeline rt walletAddress cache = Some (Found r)"
  shows "days_active (summary r) =
           daysActive rt (first_stake_date (summary r)) (last_activity_date (summary r))"
  using assms
  by (auto simp: parseWalletTimeline_def makeSummary_def Let_def
           split: option.splits if_splits prod.splits)

text \<open>
  Claim C9, at an input where it fails. The wallet has one event, whose timestamp
  \<^verbatim>\<open>not-a-date\<close> does not parse. The lookup returns a timeline of one point, and
  \<open>days_active\<close> is NaN, not the length \<open>1\<close> of the timeline.
\<close>

theorem days_active_is_NaN_on_unparsed_date:
  "\<exists>r. parseWalletTimeline isoRuntime ''wallet'' (example_cache [example_bad_timestamp]) = Some (Found r) \<and>
       length (timeline r) = 1 \<and> days_active (summary r) = NaN"
proof -
  have "parseWalletTimeline isoRuntime ''wallet'' (example_cache [example_bad_timestamp]) =
     Some (Found
       \<lparr>wallet = ''wallet'', date_range = (''not-a-date'', ''not-a-date''),
        timeline =
          [\<lparr>date = ''not-a-date'', staked = Fin 300, unstaked = Fin 0, locked = Fin 0,
             realized_rewards = Fin 0\<rparr>],
        operations =
          [\<lparr>op_date = ''not-a-date'', op_type = ''stake'', type_label = ''Stake'',
             amount = Fin 300, signature = ''sig7'', solscan_url = ''https://solscan.io/tx/sig7''\<rparr>],
        summary =
          \<lparr>total_operations = 1, current_staked = Fin 300, current_unstaked = Fin 0,
             current_locked = Fin 0, summary_realized_rewards = Fin 0,
             first_stake_date = ''not-a-date'', last_activity_date = ''not-a-date'',
             days_active = NaN\<rparr>\<rparr>)"
    by code_simp
  then show ?thesis by simp
qed


section \<open>Invariants of the accumulator\<close>

























section \<open>Invariants of the extender\<close>





lemma foldl_pick_in_set:
  assumes "\<And>a b. f a b = a \<or> f a b = b"
  shows "foldl f a xs \<in> insert a (set xs)"
proof (induction xs arbitrary: a)
  case Nil
  then show ?case by simp
next
  case (Cons x xs)
  from assms [of a x] Cons.IH [of "f a x"] show ?case by auto
qed

lemma findPrevPoint_in_set: "pts \<noteq> [] \<Longrightarrow> findPrevPoint pts u \<in> set pts"
proof -
  assume ne: "pts \<noteq> []"
  have "findPrevPoint pts u \<in> insert (hd pts) (set pts)"
    unfolding findPrevPoint_def by (rule foldl_pick_in_set) simp
  with ne show ?thesis by auto
qed















section \<open>The synthetic unlock points\<close>

text \<open>
  The search for the previous point returns a point of the timeline. When the first
  point is not later than the boundary, it returns a point with the greatest timestamp
  among the points that are not later than the boundary; when the first point is later
  than the boundary, it returns the first point.
\<close>

lemma prev_step_keep:
  fixes u :: string
  assumes "\<not> date a \<le> u"
  shows "foldl (\<lambda>prevPoint point.
                 if date point \<le> u \<and> date prevPoint < date point then point else prevPoint)
           a xs = a"
proof (induction xs)
  case Nil
  then show ?case by simp
next
  case (Cons x xs)
  have "\<not> (date x \<le> u \<and> date a < date x)" using assms by auto
  then have "(if date x \<le> u \<and> date a < date x then x else a) = a" by auto
  with Cons show ?case by (simp only: foldl_Cons)
qed

lemma prev_step_nearest:
  fixes u :: string
  assumes "date a \<le> u"
  shows "date (foldl (\<lambda>prevPoint point.
                 if date point \<le> u \<and> date prevPoint < date point then point else prevPoint)
           a xs) \<le> u \<and>
         date a \<le> date (foldl (\<lambda>prevPoint point.
                 if date point \<le> u \<and> date prevPoint < date point then point else prevPoint)
           a xs) \<and>
         (\<forall>q\<in>set xs. date q \<le> u \<longrightarrow>
            date q \<le> date (foldl (\<lambda>prevPoint point.
                 if date point \<le> u \<and> date prevPoint < date point then point else prevPoint)
           a xs))"
  using assms
proof (induction xs arbitrary: a)
  case Nil
  then show ?case by simp
next
  case (Cons x xs)
  let ?f = "\<lambda>prevPoint point.
                 if date point \<le> u \<and> date prevPoint < date point then point else prevPoint"
  let ?a' = "?f a x"
  have a': "date ?a' \<le> u" "date a \<le> date ?a'" "date x \<le> u \<longrightarrow> date x \<le> date ?a'"
    using Cons.prems by auto
  from Cons.IH [OF a'(1)] have ih: "date (foldl ?f ?a' xs) \<le> u"
    "date ?a' \<le> date (foldl ?f ?a' xs)"
    "\<forall>q\<in>set xs. date q \<le> u \<longrightarrow> date q \<le> date (foldl ?f ?a' xs)"
    by blast+
  have "date a \<le> date (foldl ?f ?a' xs)" using a'(2) ih(2) by (rule order_trans)
  moreover have "date x \<le> u \<longrightarrow> date x \<le> date (foldl ?f ?a' xs)"
    using a'(3) ih(2) by (blast intro: order_trans)
  ultimately show ?case using ih by simp
qed

lemma findPrevPoint_char:
  assumes "cur \<noteq> []"
  shows "findPrevPoint cur u \<in> set cur \<and>
         (if date (hd cur) \<le> u
          then date (findPrevPoint cur u) \<le> u \<and>
               (\<forall>q\<in>set cur. date q \<le> u \<longrightarrow> date q \<le> date (findPrevPoint cur u))
          else findPrevPoint cur u = hd cur)"
proof -
  have mem: "findPrevPoint cur u \<in> set cur" using assms by (rule findPrevPoint_in_set)
  show ?thesis
  proof (cases "date (hd cur) \<le> u")
    case True
    from prev_step_nearest [OF True, of cur] mem True show ?thesis
      unfolding findPrevPoint_def by simp
  next
    case False
    from prev_step_keep [OF False, of cur] mem False show ?thesis
      unfolding findPrevPoint_def by simp
  qed
qed

lemma addUnlockPoints_char:
  assumes "cur \<noteq> []"
  shows "\<exists>synth. addUnlockPoints rt ss ex cur us = cur @ synth \<and>
           length synth = length (filter (\<lambda>u. toISOString rt u \<notin> set ex) us) \<and>
           (\<forall>k<length synth.
              date (synth ! k) = toISOString rt (filter (\<lambda>u. toISOString rt u \<notin> set ex) us ! k) \<and>
              (\<exists>prev\<in>set (cur @ take k synth).
                 staked (synth ! k) = staked prev \<and> unstaked (synth ! k) = unstaked prev \<and>
                 realized_rewards (synth ! k) = realized_rewards prev \<and>
                 locked (synth ! k) =
                   round6 (js_min (sumLocked ss
                                     (Fin (filter (\<lambda>u. toISOString rt u \<notin> set ex) us ! k)))
                             (staked prev)) \<and>
                 (if date (hd cur) \<le> date (synth ! k)
                  then date prev \<le> date (synth ! k) \<and>
                       (\<forall>q\<in>set (cur @ take k synth).
                          date q \<le> date (synth ! k) \<longrightarrow> date q \<le> date prev)
                  else prev = hd cur)))"
  using assms
proof (induction us arbitrary: cur)
  case Nil
  then show ?case by simp
next
  case (Cons u us)
  show ?case
  proof (cases "toISOString rt u \<in> set ex")
    case True
    with Cons.IH [OF Cons.prems] show ?thesis by simp
  next
    case False
    let ?d = "toISOString rt u"
    let ?prev = "findPrevPoint cur ?d"
    let ?new = "\<lparr>date = ?d, staked = staked ?prev, unstaked = unstaked ?prev,
                  locked = round6 (js_min (sumLocked ss (Fin u)) (staked ?prev)),
                  realized_rewards = realized_rewards ?prev\<rparr>"
    let ?fus = "filter (\<lambda>u. toISOString rt u \<notin> set ex) us"
    have ne: "cur @ [?new] \<noteq> []" by simp
    have hd_eq: "hd (cur @ [?new]) = hd cur" using Cons.prems by simp
    from Cons.IH [OF ne] obtain synth' where
      eq: "addUnlockPoints rt ss ex (cur @ [?new]) us = (cur @ [?new]) @ synth'"
      and len: "length synth' = length ?fus"
      and pts: "\<forall>k<length synth'.
              date (synth' ! k) = toISOString rt (?fus ! k) \<and>
              (\<exists>prev\<in>set ((cur @ [?new]) @ take k synth').
                 staked (synth' ! k) = staked prev \<and> unstaked (synth' ! k) = unstaked prev \<and>
                 realized_rewards (synth' ! k) = realized_rewards prev \<and>
                 locked (synth' ! k) =
                   round6 (js_min (sumLocked ss (Fin (?fus ! k))) (staked prev)) \<and>
                 (if date (hd cur) \<le> date (synth' ! k)
                  then date prev \<le> date (synth' ! k) \<and>
                       (\<forall>q\<in>set ((cur @ [?new]) @ take k synth').
                          date q \<le> date (synth' ! k) \<longrightarrow> date q \<le> date prev)
                  else prev = hd cur))"
      unfolding hd_eq by blast
    let ?synth = "?new # synth'"
    have f: "filter (\<lambda>u. toISOString rt u \<notin> set ex) (u # us) = u # ?fus"
      using False by simp
    have r1: "addUnlockPoints rt ss ex cur (u # us) = cur @ ?synth"
      using False eq by (simp add: Let_def)
    have r2: "length ?synth = length (filter (\<lambda>u. toISOString rt u \<notin> set ex) (u # us))"
      using len f by simp
    have r3: "date (?synth ! k) =
                toISOString rt (filter (\<lambda>u. toISOString rt u \<notin> set ex) (u # us) ! k) \<and>
              (\<exists>prev\<in>set (cur @ take k ?synth).
                 staked (?synth ! k) = staked prev \<and> unstaked (?synth ! k) = unstaked prev \<and>
                 realized_rewards (?synth ! k) = realized_rewards prev \<and>
                 locked (?synth ! k) =
                   round6 (js_min (sumLocked ss
                              (Fin (filter (\<lambda>u. toISOString rt u \<notin> set ex) (u # us) ! k)))
                             (staked prev)) \<and>
                 (if date (hd cur) \<le> date (?synth ! k)
                  then date prev \<le> date (?synth ! k) \<and>
                       (\<forall>q\<in>set (cur @ take k ?synth).
                          date q \<le> date (?synth ! k) \<longrightarrow> date q \<le> date prev)
                  else prev = hd cur))"
      if k: "k < length ?synth" for k
    proof (cases k)
      case 0
      from findPrevPoint_char [OF Cons.prems, of ?d]
      have c: "?prev \<in> set cur"
        "if date (hd cur) \<le> ?d
          then date ?prev \<le> ?d \<and> (\<forall>q\<in>set cur. date q \<le> ?d \<longrightarrow> date q \<le> date ?prev)
          else ?prev = hd cur"
        by blast+
      show ?thesis unfolding f 0 using c by (intro conjI bexI [of _ ?prev]) simp_all
    next
      case (Suc j)
      with k have j: "j < length synth'" by simp
      have s: "cur @ take (Suc j) ?synth = (cur @ [?new]) @ take j synth'" by simp
      have n1: "?synth ! Suc j = synth' ! j" by simp
      have n2: "(u # ?fus) ! Suc j = ?fus ! j" by simp
      from pts j show ?thesis
        unfolding f Suc n1 n2 s by blast
    qed
    from r1 r2 r3 show ?thesis by blast
  qed
qed

lemma extendTimeline_frame:
  assumes "extendTimeline rt cacheEndDate pts ss = Some out"
  shows "\<exists>extra. out = pts @ extra \<or> out = sortTimeline rt (pts @ extra)"
proof (cases cacheEndDate)
  case None
  with assms have "out = pts @ []" by (simp add: extendTimeline_def)
  then show ?thesis by blast
next
  case (Some endDate)
  show ?thesis
  proof (cases "endDate \<noteq> [] \<and> pts \<noteq> [] \<and> ss \<noteq> []")
    case True
    then have ne: "pts \<noteq> []" by simp
    from assms True Some obtain us where
      us: "collectUnlockTimes ss (Date_parse rt (endDate @ ''T23:59:59Z'')) = Some us"
      by (auto simp: extendTimeline_def Let_def split: option.splits)
    from addUnlockPoints_char [OF ne, of rt ss "map date pts" us] obtain synth where
      synth: "addUnlockPoints rt ss (map date pts) pts us = pts @ synth" by blast
    from assms True Some us synth
    have "out = sortTimeline rt (pts @ synth) \<or>
          (\<exists>fin. out = sortTimeline rt (pts @ (synth @ [fin])))"
      by (auto simp: extendTimeline_def Let_def split: if_splits)
    then show ?thesis by blast
  next
    case False
    with assms Some have "out = pts @ [] \<or> (\<exists>fin. out = pts @ [fin])"
      by (auto simp: extendTimeline_def Let_def split: if_splits)
    then show ?thesis by blast
  qed
qed

text \<open>The sort permutes: the output holds every accumulated point as often as before.\<close>

lemma count_insertPoint:
  "count_list (insertPoint rt p qs) x = count_list (p # qs) x"
  by (induction qs) auto

lemma count_sortTimeline: "count_list (sortTimeline rt pts) x = count_list pts x"
  unfolding sortTimeline_def by (induction pts) (simp_all add: count_insertPoint)

lemma extendTimeline_permutes:
  assumes "extendTimeline rt cacheEndDate pts ss = Some out"
  shows "\<exists>extra. \<forall>p. count_list out p = count_list pts p + count_list extra p"
proof -
  from extendTimeline_frame [OF assms] obtain extra where
    "out = pts @ extra \<or> out = sortTimeline rt (pts @ extra)" by blast
  then have "\<forall>p. count_list out p = count_list pts p + count_list extra p"
    by (auto simp: count_sortTimeline)
  then show ?thesis by blast
qed

text \<open>
  The schedule with the negative cliff has its first unlock boundary on 2023-12-31, a day
  before the first event of the wallet. No point of the timeline is at or before that
  boundary, and the extender still appends a point for it, with the balances of the first
  point, which is later: the finished timeline starts with a staked balance of 300 on
  2023-12-31.
\<close>

theorem unlock_point_before_first_event_counterexample:
  "fst (buildBalanceTimeline isoRuntime [example_first_stake, example_early_cliff]) = [\<lparr>date = ''2024-01-01T00:00:00.000Z'', staked = Fin 300, unstaked = Fin 0, locked = Fin 0,
        realized_rewards = Fin 0\<rparr>, \<lparr>date = ''2024-01-02T00:00:00.000Z'', staked = Fin 300, unstaked = Fin 0, locked = Fin 50,
        realized_rewards = Fin 0\<rparr>] \<and>
   snd (snd (buildBalanceTimeline isoRuntime [example_first_stake, example_early_cliff])) = [\<lparr>startTime = Fin 1704153600000, lockedTuna = Fin 250, cliffHours = Fin (- 48),
        unlockPeriodHours = Fin 24, unlockRateTuna = Fin 100\<rparr>] \<and>
   collectUnlockTimes [\<lparr>startTime = Fin 1704153600000, lockedTuna = Fin 250, cliffHours = Fin (- 48),
        unlockPeriodHours = Fin 24, unlockRateTuna = Fin 100\<rparr>] (Date_parse isoRuntime ''2024-01-11T23:59:59Z'') =
     Some [1703980800000, 1704067200000, 1704153600000, 1704240000000] \<and>
   toISOString isoRuntime 1703980800000 = ''2023-12-31T00:00:00.000Z'' \<and>
   addUnlockPoints isoRuntime [\<lparr>startTime = Fin 1704153600000, lockedTuna = Fin 250, cliffHours = Fin (- 48),
        unlockPeriodHours = Fin 24, unlockRateTuna = Fin 100\<rparr>] (map date [\<lparr>date = ''2024-01-01T00:00:00.000Z'', staked = Fin 300, unstaked = Fin 0, locked = Fin 0,
        realized_rewards = Fin 0\<rparr>, \<lparr>date = ''2024-01-02T00:00:00.000Z'', staked = Fin 300, unstaked = Fin 0, locked = Fin 50,
        realized_rewards = Fin 0\<rparr>]) [\<lparr>date = ''2024-01-01T00:00:00.000Z'', staked = Fin 300, unstaked = Fin 0, locked = Fin 0,
        realized_rewards = Fin 0\<rparr>, \<lparr>date = ''2024-01-02T00:00:00.000Z'', staked = Fin 300, unstaked = Fin 0, locked = Fin 50,
        realized_rewards = Fin 0\<rparr>]
       [1703980800000, 1704067200000, 1704153600000, 1704240000000] =
     [\<lparr>date = ''2024-01-01T00:00:00.000Z'', staked = Fin 300, unstaked = Fin 0, locked = Fin 0,
        realized_rewards = Fin 0\<rparr>, \<lparr>date = ''2024-01-02T00:00:00.000Z'', staked = Fin 300, unstaked = Fin 0, locked = Fin 50,
        realized_rewards = Fin 0\<rparr>, \<lparr>date = ''2023-12-31T00:00:00.000Z'', staked = Fin 300, unstaked = Fin 0, locked = Fin 250,
        realized_rewards = Fin 0\<rparr>, \<lparr>date = ''2024-01-03T00:00:00.000Z'', staked = Fin 300, unstaked = Fin 0, locked = Fin 0,
        realized_rewards = Fin 0\<rparr>] \<and>
   \<not> date \<lparr>date = ''2024-01-01T00:00:00.000Z'', staked = Fin 300, unstaked = Fin 0, locked = Fin 0,
        realized_rewards = Fin 0\<rparr> \<le> ''2023-12-31T00:00:00.000Z'' \<and>
   \<not> date \<lparr>date = ''2024-01-02T00:00:00.000Z'', staked = Fin 300, unstaked = Fin 0, locked = Fin 50,
        realized_rewards = Fin 0\<rparr> \<le> ''2023-12-31T00:00:00.000Z'' \<and>
   extendTimeline isoRuntime (Some ''2024-01-11'') [\<lparr>date = ''2024-01-01T00:00:00.000Z'', staked = Fin 300, unstaked = Fin 0, locked = Fin 0,
        realized_rewards = Fin 0\<rparr>, \<lparr>date = ''2024-01-02T00:00:00.000Z'', staked = Fin 300, unstaked = Fin 0, locked = Fin 50,
        realized_rewards = Fin 0\<rparr>] [\<lparr>startTime = Fin 1704153600000, lockedTuna = Fin 250, cliffHours = Fin (- 48),
        unlockPeriodHours = Fin 24, unlockRateTuna = Fin 100\<rparr>] = Some [\<lparr>date = ''2023-12-31T00:00:00.000Z'', staked = Fin 300, unstaked = Fin 0, locked = Fin 250,
        realized_rewards = Fin 0\<rparr>, \<lparr>date = ''2024-01-01T00:00:00.000Z'', staked = Fin 300, unstaked = Fin 0, locked = Fin 0,
        realized_rewards = Fin 0\<rparr>, \<lparr>date = ''2024-01-02T00:00:00.000Z'', staked = Fin 300, unstaked = Fin 0, locked = Fin 50,
        realized_rewards = Fin 0\<rparr>, \<lparr>date = ''2024-01-03T00:00:00.000Z'', staked = Fin 300, unstaked = Fin 0, locked = Fin 0,
        realized_rewards = Fin 0\<rparr>, \<lparr>date = ''2024-01-11T23:59:59Z'', staked = Fin 300, unstaked = Fin 0, locked = Fin 0,
        realized_rewards = Fin 0\<rparr>]"
  by code_simp

text \<open>
  Claim C7, amended. The loop over the unlock boundaries leaves the accumulated points
  as they are and appends one synthetic point for each boundary whose timestamp is not
  the exact timestamp of an accumulated point, in the order of the boundaries. The
  \<open>k\<close>-th synthetic point is dated at its boundary; its staked, unstaked and realized
  rewards are those of a point \<open>prev\<close> of the timeline in progress (the accumulated points
  and the synthetic points before it), and its locked value is recomputed at the boundary
  and capped by the staked value of \<open>prev\<close>. When the first accumulated point is not later
  than the boundary, \<open>prev\<close> is a nearest preceding point: it is not later than the
  boundary and no point of the timeline in progress lies between; otherwise \<open>prev\<close> is the
  first accumulated point. The output of the extension is a permutation of the accumulated points
  and of appended ones: every accumulated point occurs in it unchanged.
\<close>

theorem unlock_points_carry_previous_balances:
  assumes "pts \<noteq> []"
  shows "(\<exists>synth. addUnlockPoints rt ss (map date pts) pts us = pts @ synth \<and>
           length synth = length (filter (\<lambda>u. toISOString rt u \<notin> set (map date pts)) us) \<and>
           (\<forall>k<length synth.
              date (synth ! k) =
                toISOString rt (filter (\<lambda>u. toISOString rt u \<notin> set (map date pts)) us ! k) \<and>
              (\<exists>prev\<in>set (pts @ take k synth).
                 staked (synth ! k) = staked prev \<and> unstaked (synth ! k) = unstaked prev \<and>
                 realized_rewards (synth ! k) = realized_rewards prev \<and>
                 locked (synth ! k) =
                   round6 (js_min (sumLocked ss
                              (Fin (filter (\<lambda>u. toISOString rt u \<notin> set (map date pts)) us ! k)))
                             (staked prev)) \<and>
                 (if date (hd pts) \<le> date (synth ! k)
                  then date prev \<le> date (synth ! k) \<and>
                       (\<forall>q\<in>set (pts @ take k synth).
                          date q \<le> date (synth ! k) \<longrightarrow> date q \<le> date prev)
                  else prev = hd pts)))) \<and>
         (\<forall>out. extendTimeline rt cacheEndDate pts ss = Some out \<longrightarrow>
            (\<exists>extra. \<forall>p. count_list out p = count_list pts p + count_list extra p))"
  using addUnlockPoints_char [OF assms, of rt ss "map date pts" us] extendTimeline_permutes
  by blast

theorem unlock_points_carry_previous_balances_witness:
  "[\<lparr>date = ''2024-01-01T00:00:00Z'', staked = Fin 300, unstaked = Fin 0, locked = Fin 0,
        realized_rewards = Fin 0\<rparr>, \<lparr>date = ''2024-01-02T00:00:00Z'', staked = Fin 300, unstaked = Fin 0, locked = Fin 250,
        realized_rewards = Fin 0\<rparr>] \<noteq> [] \<and>
   addUnlockPoints isoRuntime [\<lparr>startTime = Fin 1704153600000, lockedTuna = Fin 250, cliffHours = Fin 24,
        unlockPeriodHours = Fin 24, unlockRateTuna = Fin 100\<rparr>] (map date [\<lparr>date = ''2024-01-01T00:00:00Z'', staked = Fin 300, unstaked = Fin 0, locked = Fin 0,
        realized_rewards = Fin 0\<rparr>, \<lparr>date = ''2024-01-02T00:00:00Z'', staked = Fin 300, unstaked = Fin 0, locked = Fin 250,
        realized_rewards = Fin 0\<rparr>]) [\<lparr>date = ''2024-01-01T00:00:00Z'', staked = Fin 300, unstaked = Fin 0, locked = Fin 0,
        realized_rewards = Fin 0\<rparr>, \<lparr>date = ''2024-01-02T00:00:00Z'', staked = Fin 300, unstaked = Fin 0, locked = Fin 250,
        realized_rewards = Fin 0\<rparr>] [1704240000000, 1704326400000, 1704412800000, 1704499200000] = [\<lparr>date = ''2024-01-01T00:00:00Z'', staked = Fin 300, unstaked = Fin 0, locked = Fin 0,
        realized_rewards = Fin 0\<rparr>, \<lparr>date = ''2024-01-02T00:00:00Z'', staked = Fin 300, unstaked = Fin 0, locked = Fin 250,
        realized_rewards = Fin 0\<rparr>, \<lparr>date = ''2024-01-03T00:00:00.000Z'', staked = Fin 300, unstaked = Fin 0, locked = Fin 250,
        realized_rewards = Fin 0\<rparr>, \<lparr>date = ''2024-01-04T00:00:00.000Z'', staked = Fin 300, unstaked = Fin 0, locked = Fin 150,
        realized_rewards = Fin 0\<rparr>, \<lparr>date = ''2024-01-05T00:00:00.000Z'', staked = Fin 300, unstaked = Fin 0, locked = Fin 50,
        realized_rewards = Fin 0\<rparr>, \<lparr>date = ''2024-01-06T00:00:00.000Z'', staked = Fin 300, unstaked = Fin 0, locked = Fin 0,
        realized_rewards = Fin 0\<rparr>] \<and>
   (\<exists>synth. addUnlockPoints isoRuntime [\<lparr>startTime = Fin 1704153600000, lockedTuna = Fin 250, cliffHours = Fin 24,
        unlockPeriodHours = Fin 24, unlockRateTuna = Fin 100\<rparr>] (map date [\<lparr>date = ''2024-01-01T00:00:00Z'', staked = Fin 300, unstaked = Fin 0, locked = Fin 0,
        realized_rewards = Fin 0\<rparr>, \<lparr>date = ''2024-01-02T00:00:00Z'', staked = Fin 300, unstaked = Fin 0, locked = Fin 250,
        realized_rewards = Fin 0\<rparr>]) [\<lparr>date = ''2024-01-01T00:00:00Z'', staked = Fin 300, unstaked = Fin 0, locked = Fin 0,
        realized_rewards = Fin 0\<rparr>, \<lparr>date = ''2024-01-02T00:00:00Z'', staked = Fin 300, unstaked = Fin 0, locked = Fin 250,
        realized_rewards = Fin 0\<rparr>] [1704240000000, 1704326400000, 1704412800000, 1704499200000] = [\<lparr>date = ''2024-01-01T00:00:00Z'', staked = Fin 300, unstaked = Fin 0, locked = Fin 0,
        realized_rewards = Fin 0\<rparr>, \<lparr>date = ''2024-01-02T00:00:00Z'', staked = Fin 300, unstaked = Fin 0, locked = Fin 250,
        realized_rewards = Fin 0\<rparr>] @ synth \<and>
           length synth = length (filter (\<lambda>u. toISOString isoRuntime u \<notin> set (map date [\<lparr>date = ''2024-01-01T00:00:00Z'', staked = Fin 300, unstaked = Fin 0, locked = Fin 0,
        realized_rewards = Fin 0\<rparr>, \<lparr>date = ''2024-01-02T00:00:00Z'', staked = Fin 300, unstaked = Fin 0, locked = Fin 250,
        realized_rewards = Fin 0\<rparr>])) [1704240000000, 1704326400000, 1704412800000, 1704499200000]) \<and>
           (\<forall>k<length synth.
              date (synth ! k) =
                toISOString isoRuntime (filter (\<lambda>u. toISOString isoRuntime u \<notin> set (map date [\<lparr>date = ''2024-01-01T00:00:00Z'', staked = Fin 300, unstaked = Fin 0, locked = Fin 0,
        realized_rewards = Fin 0\<rparr>, \<lparr>date = ''2024-01-02T00:00:00Z'', staked = Fin 300, unstaked = Fin 0, locked = Fin 250,
        realized_rewards = Fin 0\<rparr>])) [1704240000000, 1704326400000, 1704412800000, 1704499200000] ! k) \<and>
              (\<exists>prev\<in>set ([\<lparr>date = ''2024-01-01T00:00:00Z'', staked = Fin 300, unstaked = Fin 0, locked = Fin 0,
        realized_rewards = Fin 0\<rparr>, \<lparr>date = ''2024-01-02T00:00:00Z'', staked = Fin 300, unstaked = Fin 0, locked = Fin 250,
        realized_rewards = Fin 0\<rparr>] @ take k synth).
                 staked (synth ! k) = staked prev \<and> unstaked (synth ! k) = unstaked prev \<and>
                 realized_rewards (synth ! k) = realized_rewards prev \<and>
                 locked (synth ! k) =
                   round6 (js_min (sumLocked [\<lparr>startTime = Fin 1704153600000, lockedTuna = Fin 250, cliffHours = Fin 24,
        unlockPeriodHours = Fin 24, unlockRateTuna = Fin 100\<rparr>]
                              (Fin (filter (\<lambda>u. toISOString isoRuntime u \<notin> set (map date [\<lparr>date = ''2024-01-01T00:00:00Z'', staked = Fin 300, unstaked = Fin 0, locked = Fin 0,
        realized_rewards = Fin 0\<rparr>, \<lparr>date = ''2024-01-02T00:00:00Z'', staked = Fin 300, unstaked = Fin 0, locked = Fin 250,
        realized_rewards = Fin 0\<rparr>])) [1704240000000, 1704326400000, 1704412800000, 1704499200000] ! k)))
                             (staked prev)) \<and>
                 (if date (hd [\<lparr>date = ''2024-01-01T00:00:00Z'', staked = Fin 300, unstaked = Fin 0, locked = Fin 0,
        realized_rewards = Fin 0\<rparr>, \<lparr>date = ''2024-01-02T00:00:00Z'', staked = Fin 300, unstaked = Fin 0, locked = Fin 250,
        realized_rewards = Fin 0\<rparr>]) \<le> date (synth ! k)
                  then date prev \<le> date (synth ! k) \<and>
                       (\<forall>q\<in>set ([\<lparr>date = ''2024-01-01T00:00:00Z'', staked = Fin 300, unstaked = Fin 0, locked = Fin 0,
        realized_rewards = Fin 0\<rparr>, \<lparr>date = ''2024-01-02T00:00:00Z'', staked = Fin 300, unstaked = Fin 0, locked = Fin 250,
        realized_rewards = Fin 0\<rparr>] @ take k synth).
                          date q \<le> date (synth ! k) \<longrightarrow> date q \<le> date prev)
                  else prev = hd [\<lparr>date = ''2024-01-01T00:00:00Z'', staked = Fin 300, unstaked = Fin 0, locked = Fin 0,
        realized_rewards = Fin 0\<rparr>, \<lparr>date = ''2024-01-02T00:00:00Z'', staked = Fin 300, unstaked = Fin 0, locked = Fin 250,
        realized_rewards = Fin 0\<rparr>])))) \<and>
   (\<exists>out extra. extendTimeline isoRuntime (Some ''2024-01-10'') [\<lparr>date = ''2024-01-01T00:00:00Z'', staked = Fin 300, unstaked = Fin 0, locked = Fin 0,
        realized_rewards = Fin 0\<rparr>, \<lparr>date = ''2024-01-02T00:00:00Z'', staked = Fin 300, unstaked = Fin 0, locked = Fin 250,
        realized_rewards = Fin 0\<rparr>] [\<lparr>startTime = Fin 1704153600000, lockedTuna = Fin 250, cliffHours = Fin 24,
        unlockPeriodHours = Fin 24, unlockRateTuna = Fin 100\<rparr>] = Some out \<and>
       (\<forall>p. count_list out p = count_list [\<lparr>date = ''2024-01-01T00:00:00Z'', staked = Fin 300, unstaked = Fin 0, locked = Fin 0,
        realized_rewards = Fin 0\<rparr>, \<lparr>date = ''2024-01-02T00:00:00Z'', staked = Fin 300, unstaked = Fin 0, locked = Fin 250,
        realized_rewards = Fin 0\<rparr>] p + count_list extra p))"
proof -
  have ne: "[\<lparr>date = ''2024-01-01T00:00:00Z'', staked = Fin 300, unstaked = Fin 0, locked = Fin 0,
        realized_rewards = Fin 0\<rparr>, \<lparr>date = ''2024-01-02T00:00:00Z'', staked = Fin 300, unstaked = Fin 0, locked = Fin 250,
        realized_rewards = Fin 0\<rparr>] \<noteq> []" by simp
  have ev: "addUnlockPoints isoRuntime [\<lparr>startTime = Fin 1704153600000, lockedTuna = Fin 250, cliffHours = Fin 24,
        unlockPeriodHours = Fin 24, unlockRateTuna = Fin 100\<rparr>] (map date [\<lparr>date = ''2024-01-01T00:00:00Z'', staked = Fin 300, unstaked = Fin 0, locked = Fin 0,
        realized_rewards = Fin 0\<rparr>, \<lparr>date = ''2024-01-02T00:00:00Z'', staked = Fin 300, unstaked = Fin 0, locked = Fin 250,
        realized_rewards = Fin 0\<rparr>]) [\<lparr>date = ''2024-01-01T00:00:00Z'', staked = Fin 300, unstaked = Fin 0, locked = Fin 0,
        realized_rewards = Fin 0\<rparr>, \<lparr>date = ''2024-01-02T00:00:00Z'', staked = Fin 300, unstaked = Fin 0, locked = Fin 250,
        realized_rewards = Fin 0\<rparr>] [1704240000000, 1704326400000, 1704412800000, 1704499200000] = [\<lparr>date = ''2024-01-01T00:00:00Z'', staked = Fin 300, unstaked = Fin 0, locked = Fin 0,
        realized_rewards = Fin 0\<rparr>, \<lparr>date = ''2024-01-02T00:00:00Z'', staked = Fin 300, unstaked = Fin 0, locked = Fin 250,
        realized_rewards = Fin 0\<rparr>, \<lparr>date = ''2024-01-03T00:00:00.000Z'', staked = Fin 300, unstaked = Fin 0, locked = Fin 250,
        realized_rewards = Fin 0\<rparr>, \<lparr>date = ''2024-01-04T00:00:00.000Z'', staked = Fin 300, unstaked = Fin 0, locked = Fin 150,
        realized_rewards = Fin 0\<rparr>, \<lparr>date = ''2024-01-05T00:00:00.000Z'', staked = Fin 300, unstaked = Fin 0, locked = Fin 50,
        realized_rewards = Fin 0\<rparr>, \<lparr>date = ''2024-01-06T00:00:00.000Z'', staked = Fin 300, unstaked = Fin 0, locked = Fin 0,
        realized_rewards = Fin 0\<rparr>]"
    by code_simp
  have ext: "extendTimeline isoRuntime (Some ''2024-01-10'') [\<lparr>date = ''2024-01-01T00:00:00Z'', staked = Fin 300, unstaked = Fin 0, locked = Fin 0,
        realized_rewards = Fin 0\<rparr>, \<lparr>date = ''2024-01-02T00:00:00Z'', staked = Fin 300, unstaked = Fin 0, locked = Fin 250,
        realized_rewards = Fin 0\<rparr>] [\<lparr>startTime = Fin 1704153600000, lockedTuna = Fin 250, cliffHours = Fin 24,
        unlockPeriodHours = Fin 24, unlockRateTuna = Fin 100\<rparr>] =
       Some [\<lparr>date = ''2024-01-01T00:00:00Z'', staked = Fin 300, unstaked = Fin 0, locked = Fin 0,
        realized_rewards = Fin 0\<rparr>, \<lparr>date = ''2024-01-02T00:00:00Z'', staked = Fin 300, unstaked = Fin 0, locked = Fin 250,
        realized_rewards = Fin 0\<rparr>, \<lparr>date = ''2024-01-03T00:00:00.000Z'', staked = Fin 300, unstaked = Fin 0, locked = Fin 250,
        realized_rewards = Fin 0\<rparr>, \<lparr>date = ''2024-01-04T00:00:00.000Z'', staked = Fin 300, unstaked = Fin 0, locked = Fin 150,
        realized_rewards = Fin 0\<rparr>, \<lparr>date = ''2024-01-05T00:00:00.000Z'', staked = Fin 300, unstaked = Fin 0, locked = Fin 50,
        realized_rewards = Fin 0\<rparr>, \<lparr>date = ''2024-01-06T00:00:00.000Z'', staked = Fin 300, unstaked = Fin 0, locked = Fin 0,
        realized_rewards = Fin 0\<rparr>, \<lparr>date = ''2024-01-10T23:59:59Z'', staked = Fin 300, unstaked = Fin 0, locked = Fin 0,
        realized_rewards = Fin 0\<rparr>]"
    by code_simp
  note c = unlock_points_carry_previous_balances [OF ne, where rt = isoRuntime and ss = "[\<lparr>startTime = Fin 1704153600000, lockedTuna = Fin 250, cliffHours = Fin 24,
        unlockPeriodHours = Fin 24, unlockRateTuna = Fin 100\<rparr>]" and us = "[1704240000000, 1704326400000, 1704412800000, 1704499200000]"
      and cacheEndDate = "Some ''2024-01-10''"]
  from c have c1: "(\<exists>synth. addUnlockPoints isoRuntime [\<lparr>startTime = Fin 1704153600000, lockedTuna = Fin 250, cliffHours = Fin 24,
        unlockPeriodHours = Fin 24, unlockRateTuna = Fin 100\<rparr>] (map date [\<lparr>date = ''2024-01-01T00:00:00Z'', staked = Fin 300, unstaked = Fin 0, locked = Fin 0,
        realized_rewards = Fin 0\<rparr>, \<lparr>date = ''2024-01-02T00:00:00Z'', staked = Fin 300, unstaked = Fin 0, locked = Fin 250,
        realized_rewards = Fin 0\<rparr>]) [\<lparr>date = ''2024-01-01T00:00:00Z'', staked = Fin 300, unstaked = Fin 0, locked = Fin 0,
        realized_rewards = Fin 0\<rparr>, \<lparr>date = ''2024-01-02T00:00:00Z'', staked = Fin 300, unstaked = Fin 0, locked = Fin 250,
        realized_rewards = Fin 0\<rparr>] [1704240000000, 1704326400000, 1704412800000, 1704499200000] = [\<lparr>date = ''2024-01-01T00:00:00Z'', staked = Fin 300, unstaked = Fin 0, locked = Fin 0,
        realized_rewards = Fin 0\<rparr>, \<lparr>date = ''2024-01-02T00:00:00Z'', staked = Fin 300, unstaked = Fin 0, locked = Fin 250,
        realized_rewards = Fin 0\<rparr>] @ synth \<and>
           length synth = length (filter (\<lambda>u. toISOString isoRuntime u \<notin> set (map date [\<lparr>date = ''2024-01-01T00:00:00Z'', staked = Fin 300, unstaked = Fin 0, locked = Fin 0,
        realized_rewards = Fin 0\<rparr>, \<lparr>date = ''2024-01-02T00:00:00Z'', staked = Fin 300, unstaked = Fin 0, locked = Fin 250,
        realized_rewards = Fin 0\<rparr>])) [1704240000000, 1704326400000, 1704412800000, 1704499200000]) \<and>
           (\<forall>k<length synth.
              date (synth ! k) =
                toISOString isoRuntime (filter (\<lambda>u. toISOString isoRuntime u \<notin> set (map date [\<lparr>date = ''2024-01-01T00:00:00Z'', staked = Fin 300, unstaked = Fin 0, locked = Fin 0,
        realized_rewards = Fin 0\<rparr>, \<lparr>date = ''2024-01-02T00:00:00Z'', staked = Fin 300, unstaked = Fin 0, locked = Fin 250,
        realized_rewards = Fin 0\<rparr>])) [1704240000000, 1704326400000, 1704412800000, 1704499200000] ! k) \<and>
              (\<exists>prev\<in>set ([\<lparr>date = ''2024-01-01T00:00:00Z'', staked = Fin 300, unstaked = Fin 0, locked = Fin 0,
        realized_rewards = Fin 0\<rparr>, \<lparr>date = ''2024-01-02T00:00:00Z'', staked = Fin 300, unstaked = Fin 0, locked = Fin 250,
        realized_rewards = Fin 0\<rparr>] @ take k synth).
                 staked (synth ! k) = staked prev \<and> unstaked (synth ! k) = unstaked prev \<and>
                 realized_rewards (synth ! k) = realized_rewards prev \<and>
                 locked (synth ! k) =
                   round6 (js_min (sumLocked [\<lparr>startTime = Fin 1704153600000, lockedTuna = Fin 250, cliffHours = Fin 24,
        unlockPeriodHours = Fin 24, unlockRateTuna = Fin 100\<rparr>]
                              (Fin (filter (\<lambda>u. toISOString isoRuntime u \<notin> set (map date [\<lparr>date = ''2024-01-01T00:00:00Z'', staked = Fin 300, unstaked = Fin 0, locked = Fin 0,
        realized_rewards = Fin 0\<rparr>, \<lparr>date = ''2024-01-02T00:00:00Z'', staked = Fin 300, unstaked = Fin 0, locked = Fin 250,
        realized_rewards = Fin 0\<rparr>])) [1704240000000, 1704326400000, 1704412800000, 1704499200000] ! k)))
                             (staked prev)) \<and>
                 (if date (hd [\<lparr>date = ''2024-01-01T00:00:00Z'', staked = Fin 300, unstaked = Fin 0, locked = Fin 0,
        realized_rewards = Fin 0\<rparr>, \<lparr>date = ''2024-01-02T00:00:00Z'', staked = Fin 300, unstaked = Fin 0, locked = Fin 250,
        realized_rewards = Fin 0\<rparr>]) \<le> date (synth ! k)
                  then date prev \<le> date (synth ! k) \<and>
                       (\<forall>q\<in>set ([\<lparr>date = ''2024-01-01T00:00:00Z'', staked = Fin 300, unstaked = Fin 0, locked = Fin 0,
        realized_rewards = Fin 0\<rparr>, \<lparr>date = ''2024-01-02T00:00:00Z'', staked = Fin 300, unstaked = Fin 0, locked = Fin 250,
        realized_rewards = Fin 0\<rparr>] @ take k synth).
                          date q \<le> date (synth ! k) \<longrightarrow> date q \<le> date prev)
                  else prev = hd [\<lparr>date = ''2024-01-01T00:00:00Z'', staked = Fin 300, unstaked = Fin 0, locked = Fin 0,
        realized_rewards = Fin 0\<rparr>, \<lparr>date = ''2024-01-02T00:00:00Z'', staked = Fin 300, unstaked = Fin 0, locked = Fin 250,
        realized_rewards = Fin 0\<rparr>]))))"
    by (rule conjunct1)
  from c ext have c2: "\<exists>out extra. extendTimeline isoRuntime (Some ''2024-01-10'') [\<lparr>date = ''2024-01-01T00:00:00Z'', staked = Fin 300, unstaked = Fin 0, locked = Fin 0,
        realized_rewards = Fin 0\<rparr>, \<lparr>date = ''2024-01-02T00:00:00Z'', staked = Fin 300, unstaked = Fin 0, locked = Fin 250,
        realized_rewards = Fin 0\<rparr>] [\<lparr>startTime = Fin 1704153600000, lockedTuna = Fin 250, cliffHours = Fin 24,
        unlockPeriodHours = Fin 24, unlockRateTuna = Fin 100\<rparr>] = Some out \<and>
       (\<forall>p. count_list out p = count_list [\<lparr>date = ''2024-01-01T00:00:00Z'', staked = Fin 300, unstaked = Fin 0, locked = Fin 0,
        realized_rewards = Fin 0\<rparr>, \<lparr>date = ''2024-01-02T00:00:00Z'', staked = Fin 300, unstaked = Fin 0, locked = Fin 250,
        realized_rewards = Fin 0\<rparr>] p + count_list extra p)"
    by blast
  from ne ev c1 c2 show ?thesis by blast
qed


text \<open>
  The synthetic points of a wallet with the two schedules \<open>s1\<close> and \<open>s2\<close> follow the same
  rule as the points of the accumulator: the locked value is the sum of the two locked
  amounts at the boundary, capped by the staked value of the point.
\<close>

lemma synthetic_points_two_schedules:
  assumes "pts \<noteq> []"
  shows "\<exists>synth. addUnlockPoints rt [s1, s2] ex pts us = pts @ synth \<and>
           (\<forall>p\<in>set synth. \<exists>u\<in>set us.
              date p = toISOString rt u \<and>
              locked p =
                round6 (js_min (js_add (calculateLockedAmount s1 (Fin u))
                                   (calculateLockedAmount s2 (Fin u)))
                          (staked p)))"
proof -
  let ?fus = "filter (\<lambda>u. toISOString rt u \<notin> set ex) us"
  from addUnlockPoints_char [OF assms, of rt "[s1, s2]" ex us] obtain synth where
    eq: "addUnlockPoints rt [s1, s2] ex pts us = pts @ synth"
    and len: "length synth = length ?fus"
    and ch: "\<forall>k<length synth.
              date (synth ! k) = toISOString rt (?fus ! k) \<and>
              (\<exists>prev\<in>set (pts @ take k synth).
                 staked (synth ! k) = staked prev \<and> unstaked (synth ! k) = unstaked prev \<and>
                 realized_rewards (synth ! k) = realized_rewards prev \<and>
                 locked (synth ! k) =
                   round6 (js_min (sumLocked [s1, s2] (Fin (?fus ! k))) (staked prev)) \<and>
                 (if date (hd pts) \<le> date (synth ! k)
                  then date prev \<le> date (synth ! k) \<and>
                       (\<forall>q\<in>set (pts @ take k synth).
                          date q \<le> date (synth ! k) \<longrightarrow> date q \<le> date prev)
                  else prev = hd pts))"
    by blast
  have "\<exists>u\<in>set us. date p = toISOString rt u \<and>
              locked p =
                round6 (js_min (js_add (calculateLockedAmount s1 (Fin u))
                                   (calculateLockedAmount s2 (Fin u)))
                          (staked p))"
    if "p \<in> set synth" for p
  proof -
    from that obtain k where k: "k < length synth" "p = synth ! k"
      by (auto simp: in_set_conv_nth)
    from k(1) len have "k < length ?fus" by simp
    then have "?fus ! k \<in> set ?fus" by (rule nth_mem)
    then have mem: "?fus ! k \<in> set us" by (simp only: set_filter) blast
    from ch k(1) have "date (synth ! k) = toISOString rt (?fus ! k)"
      and "locked (synth ! k) =
             round6 (js_min (sumLocked [s1, s2] (Fin (?fus ! k))) (staked (synth ! k)))"
      by auto
    with mem k(2) show ?thesis by (auto simp: sumLocked_two)
  qed
  with eq show ?thesis by blast
qed

end
